theory Spec2Isabelle
  imports Main "HOL-Library.Word"
begin

unbundle bit_operations_syntax

section \<open>The GPU thread of core/gpu_thread.cpp\<close>

text \<open>
  The development follows \<^verbatim>\<open>src/core/gpu_thread.cpp\<close>: the command FIFO shared by the
  CPU thread (producer) and the GPU thread (consumer), the wake/sleep/sync protocol on
  \<^verbatim>\<open>s_thread_wake_count\<close>, and the backend and device life cycle on the GPU thread.
  Globals of the namespace are the fields of one record; every function takes the record
  and returns the new one.
\<close>

subsection \<open>Machine types and constants\<close>

type_synonym u8 = "8 word"
type_synonym u32 = "32 word"
type_synonym s32 = "32 word"
type_synonym u64 = "64 word"

text \<open>\<^verbatim>\<open>enum : u32 { COMMAND_QUEUE_SIZE = 4 * 1024 * 1024, THRESHOLD_TO_WAKE_GPU = 256 }\<close>\<close>

definition COMMAND_QUEUE_SIZE :: u32 where
  "COMMAND_QUEUE_SIZE = 4 * 1024 * 1024"

definition THRESHOLD_TO_WAKE_GPU :: u32 where
  "THRESHOLD_TO_WAKE_GPU = 256"

definition THREAD_WAKE_COUNT_CPU_THREAD_IS_WAITING :: s32 where
  "THREAD_WAKE_COUNT_CPU_THREAD_IS_WAITING = 0x40000000"

definition THREAD_WAKE_COUNT_SLEEPING :: s32 where
  "THREAD_WAKE_COUNT_SLEEPING = - 1"

text \<open>
  The enumerations are declared in headers that are not part of the sources at hand; the
  code names only the constructors listed first, the remaining values are kept apart by
  an index.
\<close>

datatype GPUBackendCommandType =
  Wraparound | AsyncCall | ChangeBackend | UpdateVSync | BackendCommand nat

datatype GPURenderer = Software | Hardware nat

datatype RenderAPI = RenderAPI_None | RenderAPI_Of nat

datatype GPUVSyncMode = Disabled | VSyncMode nat

text \<open>
  A command as it lies in the FIFO: the header fields the code writes and reads
  (\<^verbatim>\<open>type\<close>, \<^verbatim>\<open>size\<close>, \<^verbatim>\<open>params.bits\<close>) and the bytes that follow the header.
  \<^verbatim>\<open>m_command_fifo_data\<close> is read through \<^verbatim>\<open>reinterpret_cast\<close> at a byte offset, so the
  array is kept as the command found at each offset. Two commands whose byte ranges
  overlap are independent cells here; no statement below relies on a write at one offset
  changing the command read at another.
\<close>

record GPUThreadCommand =
  cmd_type :: GPUBackendCommandType
  cmd_size :: u32
  cmd_params_bits :: u8
  cmd_payload :: "u8 list"

text \<open>
  What the included headers fix and the sources at hand do not show: the sizes of the
  command structures, \<^verbatim>\<open>Threading::SPIN_TIME_NS\<close>, the tick rate of
  \<^verbatim>\<open>Common::Timer\<close> and \<^verbatim>\<open>Settings::GetRenderAPIForRenderer\<close>. They are parameters of
  the model.
\<close>

record platform =
  sizeof_GPUBackendCommand :: nat
  sizeof_GPUBackendCommandType :: nat
  sizeof_GPUThreadCommand :: nat
  SPIN_TIME_NS :: u32
  timer_ticks_per_second :: nat
  GetRenderAPIForRenderer :: "GPURenderer \<Rightarrow> RenderAPI"
  g_gpu_settings_gpu_renderer :: GPURenderer

record GPUBackend =
  is_hardware_backend :: bool
  backend_initialized :: bool

record gpu_thread =
  s_render_api :: RenderAPI
  s_gpu_backend :: "GPUBackend option"
  g_gpu_device :: "RenderAPI option"
  s_requested_renderer :: "GPURenderer option"
  s_start_fullscreen_ui :: bool
  s_requested_vsync :: GPUVSyncMode
  s_requested_allow_present_throttle :: bool
  m_gpu_thread_joinable :: bool
  s_shutdown_flag :: bool
  s_run_idle_flag :: bool
  m_command_fifo_data :: "u32 \<Rightarrow> GPUThreadCommand"
  m_command_fifo_read_ptr :: u32
  m_command_fifo_write_ptr :: u32
  s_thread_wake_semaphore :: nat
  s_thread_is_done_semaphore :: nat
  s_thread_wake_count :: s32
  s_last_gpu_reset_time :: u64
  osd_messages :: "string list"

subsection \<open>Wake protocol\<close>

text \<open>\<^verbatim>\<open>GetThreadWakeCount\<close>: the state with the waiting flag masked off.\<close>

definition GetThreadWakeCount :: "s32 \<Rightarrow> s32" where
  "GetThreadWakeCount state = state AND NOT THREAD_WAKE_COUNT_CPU_THREAD_IS_WAITING"

text \<open>
  \<^verbatim>\<open>WakeGPUThread\<close>: \<^verbatim>\<open>fetch_add(2)\<close> returns the value before the addition; the
  semaphore is posted when that value is negative.
\<close>

definition WakeGPUThread :: "gpu_thread \<Rightarrow> gpu_thread" where
  "WakeGPUThread s =
     (let old = s_thread_wake_count s;
          s1 = s\<lparr>s_thread_wake_count := old + 2\<rparr>
      in if sint old < 0
         then s1\<lparr>s_thread_wake_semaphore := s_thread_wake_semaphore s1 + 1\<rparr>
         else s1)"

text \<open>
  \<^verbatim>\<open>SleepGPUThread\<close> on the GPU thread. The compare-exchange is taken to succeed on the
  value it loaded; \<^verbatim>\<open>s_thread_wake_semaphore.Wait()\<close> returns when a post is pending,
  otherwise the thread stays blocked there, which is the result \<open>Blocked_in_Wait\<close>.
\<close>

datatype sleep_result = Returned_true | Returned_false | Blocked_in_Wait

fun SleepGPUThread :: "nat \<Rightarrow> bool \<Rightarrow> gpu_thread \<Rightarrow> (sleep_result \<times> gpu_thread) option" where
  "SleepGPUThread 0 allow_sleep s = None"
| "SleepGPUThread (Suc fuel) allow_sleep s =
     (let old_state = s_thread_wake_count s;
          new_state = (if 0 < sint (GetThreadWakeCount old_state)
                       then old_state AND THREAD_WAKE_COUNT_CPU_THREAD_IS_WAITING
                       else THREAD_WAKE_COUNT_SLEEPING);
          s1 = s\<lparr>s_thread_wake_count := new_state\<rparr>
      in if 0 < sint (GetThreadWakeCount old_state) then Some (Returned_true, s1)
         else
           let s2 = (if old_state AND THREAD_WAKE_COUNT_CPU_THREAD_IS_WAITING \<noteq> 0
                     then s1\<lparr>s_thread_is_done_semaphore := s_thread_is_done_semaphore s1 + 1\<rparr>
                     else s1)
           in if allow_sleep
              then (if 0 < s_thread_wake_semaphore s2
                    then SleepGPUThread fuel allow_sleep
                           (s2\<lparr>s_thread_wake_semaphore := s_thread_wake_semaphore s2 - 1\<rparr>)
                    else Some (Blocked_in_Wait, s2))
              else Some (Returned_false, s2))"

text \<open>
  \<^verbatim>\<open>SyncGPUThread\<close> on the CPU thread. The GPU thread changes \<^verbatim>\<open>s_thread_wake_count\<close>
  while the CPU thread loops, so the values the atomic operations see are given from
  outside: \<open>counts k\<close> is the value in memory at the \<open>k\<close>-th access of this call. A loop
  that has not left after \<open>fuel\<close> rounds yields \<open>None\<close>.

  The spin loop: \<^verbatim>\<open>waited\<close> is a local that the loop body never assigns.
\<close>

fun SyncGPUThread_spin :: "platform \<Rightarrow> nat \<Rightarrow> (nat \<Rightarrow> s32) \<Rightarrow> nat \<Rightarrow> u32 \<Rightarrow> (bool \<times> nat) option" where
  "SyncGPUThread_spin P 0 counts k waited = None"
| "SyncGPUThread_spin P (Suc fuel) counts k waited =
     (if sint (GetThreadWakeCount (counts k)) < 0 then Some (True, Suc k)
      else if waited \<le> SPIN_TIME_NS P then SyncGPUThread_spin P fuel counts (Suc k) waited
      else Some (False, Suc k))"

text \<open>
  The compare-exchange loop: one access loads \<^verbatim>\<open>value\<close>, the next is the
  compare-exchange, which stores \<^verbatim>\<open>value | THREAD_WAKE_COUNT_CPU_THREAD_IS_WAITING\<close> when
  memory still holds \<^verbatim>\<open>value\<close> (a spurious failure of the weak exchange is one more
  round of the loop and is left out). After a successful exchange the thread is in
  \<^verbatim>\<open>s_thread_is_done_semaphore.Wait()\<close>.
\<close>

datatype sync_result = Sync_returned | Sync_waits_for_done

fun SyncGPUThread_cas :: "nat \<Rightarrow> (nat \<Rightarrow> s32) \<Rightarrow> nat \<Rightarrow> gpu_thread \<Rightarrow> (sync_result \<times> gpu_thread) option" where
  "SyncGPUThread_cas 0 counts k s = None"
| "SyncGPUThread_cas (Suc fuel) counts k s =
     (let v = counts k in
      if sint (GetThreadWakeCount v) < 0 then Some (Sync_returned, s\<lparr>s_thread_wake_count := v\<rparr>)
      else if counts (Suc k) = v
      then Some (Sync_waits_for_done,
                 s\<lparr>s_thread_wake_count := v OR THREAD_WAKE_COUNT_CPU_THREAD_IS_WAITING\<rparr>)
      else SyncGPUThread_cas fuel counts (Suc (Suc k)) s)"

definition SyncGPUThread :: "platform \<Rightarrow> nat \<Rightarrow> (nat \<Rightarrow> s32) \<Rightarrow> bool \<Rightarrow> gpu_thread \<Rightarrow> (sync_result \<times> gpu_thread) option" where
  "SyncGPUThread P fuel counts spin s =
     (if spin
      then (case SyncGPUThread_spin P fuel counts 0 0 of
              None \<Rightarrow> None
            | Some (True, k) \<Rightarrow> Some (Sync_returned, s\<lparr>s_thread_wake_count := counts (k - 1)\<rparr>)
            | Some (False, k) \<Rightarrow> SyncGPUThread_cas fuel counts k s)
      else SyncGPUThread_cas fuel counts 0 s)"

subsection \<open>The command FIFO, producer side\<close>

text \<open>
  Modelled from the spec: \<^verbatim>\<open>Common::AlignUpPow2\<close> of common/align.h, which is not among
  the sources at hand. The spec: allocate "reserves \<open>\<lceil>size/4\<rceil>\<cdot>4\<close> bytes". The result is
  assigned to the \<^verbatim>\<open>u32\<close> parameter \<^verbatim>\<open>size\<close>, hence the conversion back to a word.
\<close>

definition AlignUpPow2 :: "u32 \<Rightarrow> nat \<Rightarrow> u32" where
  "AlignUpPow2 v a = word_of_nat (((unat v + a - 1) div a) * a)"

text \<open>
  \<^verbatim>\<open>AllocateCommand\<close>. \<open>reads k\<close> is the value of \<^verbatim>\<open>m_command_fifo_read_ptr\<close> in memory
  at the \<open>k\<close>-th load of this call (the GPU thread stores to it meanwhile); the record's
  field follows the loads. The comparisons with \<^verbatim>\<open>size + sizeof(...)\<close> are made in
  \<^verbatim>\<open>size_t\<close>, wider than \<^verbatim>\<open>u32\<close>, so that sum is a natural number here.

  The result is the offset of the returned command and the state; no offset means that
  the loops have not returned within \<open>fuel\<close> rounds, and the state is the one reached.

  First the inner \<^verbatim>\<open>while\<close> of the branch \<^verbatim>\<open>read_ptr > write_ptr\<close>.
\<close>

fun AllocateCommand_wait :: "nat \<Rightarrow> (nat \<Rightarrow> u32) \<Rightarrow> nat \<Rightarrow> u32 \<Rightarrow> nat \<Rightarrow> u32 \<Rightarrow> gpu_thread \<Rightarrow> bool \<times> gpu_thread" where
  "AllocateCommand_wait 0 reads k write_ptr need available_size s =
     (\<not> unat available_size < need, s)"
| "AllocateCommand_wait (Suc fuel) reads k write_ptr need available_size s =
     (if unat available_size < need
      then
        let s1 = WakeGPUThread s;
            read_ptr = reads k;
            s2 = s1\<lparr>m_command_fifo_read_ptr := read_ptr\<rparr>
        in AllocateCommand_wait fuel reads (Suc k) write_ptr need
             (if read_ptr > write_ptr then read_ptr - write_ptr
              else COMMAND_QUEUE_SIZE - write_ptr) s2
      else (True, s))"

definition store_command_header :: "u32 \<Rightarrow> GPUBackendCommandType \<Rightarrow> u32 \<Rightarrow> gpu_thread \<Rightarrow> gpu_thread" where
  "store_command_header p command sz s =
     s\<lparr>m_command_fifo_data :=
         (m_command_fifo_data s)(p := (m_command_fifo_data s p)\<lparr>cmd_type := command, cmd_size := sz\<rparr>)\<rparr>"

definition store_wraparound :: "u32 \<Rightarrow> u32 \<Rightarrow> gpu_thread \<Rightarrow> gpu_thread" where
  "store_wraparound p available_size s =
     s\<lparr>m_command_fifo_data :=
         (m_command_fifo_data s)(p := (m_command_fifo_data s p)
            \<lparr>cmd_type := Wraparound, cmd_size := available_size, cmd_params_bits := 0\<rparr>),
       m_command_fifo_write_ptr := 0\<rparr>"

fun AllocateCommand_loop :: "platform \<Rightarrow> nat \<Rightarrow> (nat \<Rightarrow> u32) \<Rightarrow> nat \<Rightarrow> GPUBackendCommandType \<Rightarrow> u32 \<Rightarrow> gpu_thread \<Rightarrow> u32 option \<times> gpu_thread" where
  "AllocateCommand_loop P 0 reads k command sz s = (None, s)"
| "AllocateCommand_loop P (Suc fuel) reads k command sz s =
     (let read_ptr = reads k;
          write_ptr = m_command_fifo_write_ptr s;
          s0 = s\<lparr>m_command_fifo_read_ptr := read_ptr\<rparr>
      in if read_ptr > write_ptr
         then
           (case AllocateCommand_wait fuel reads (Suc k) write_ptr
                   (unat sz + sizeof_GPUBackendCommandType P) (read_ptr - write_ptr) s0 of
              (False, s1) \<Rightarrow> (None, s1)
            | (True, s1) \<Rightarrow> (Some write_ptr, store_command_header write_ptr command sz s1))
         else
           let available_size = COMMAND_QUEUE_SIZE - write_ptr
           in if unat sz + sizeof_GPUBackendCommand P > unat available_size
              then AllocateCommand_loop P fuel reads (Suc k) command sz
                     (store_wraparound write_ptr available_size s0)
              else (Some write_ptr, store_command_header write_ptr command sz s0))"

definition AllocateCommand :: "platform \<Rightarrow> nat \<Rightarrow> (nat \<Rightarrow> u32) \<Rightarrow> GPUBackendCommandType \<Rightarrow> u32 \<Rightarrow> gpu_thread \<Rightarrow> u32 option \<times> gpu_thread" where
  "AllocateCommand P fuel reads command sz s =
     AllocateCommand_loop P fuel reads 0 command (AlignUpPow2 sz 4) s"

text \<open>The stores a caller makes through the returned pointer before publishing.\<close>

definition store_command_payload :: "u32 \<Rightarrow> u8 list \<Rightarrow> gpu_thread \<Rightarrow> gpu_thread" where
  "store_command_payload p bytes s =
     s\<lparr>m_command_fifo_data :=
         (m_command_fifo_data s)(p := (m_command_fifo_data s p)\<lparr>cmd_payload := bytes\<rparr>)\<rparr>"

definition GetPendingCommandSize :: "gpu_thread \<Rightarrow> u32" where
  "GetPendingCommandSize s =
     (let read_ptr = m_command_fifo_read_ptr s;
          write_ptr = m_command_fifo_write_ptr s
      in if write_ptr \<ge> read_ptr then write_ptr - read_ptr
         else COMMAND_QUEUE_SIZE - read_ptr + write_ptr)"

text \<open>
  The three publishing functions take the pointer \<^verbatim>\<open>cmd\<close> as the offset of the command.
  \<^verbatim>\<open>DebugAssert\<close> is compiled out of release builds and leaves no trace here.
\<close>

definition fetch_add_write_ptr :: "u32 \<Rightarrow> gpu_thread \<Rightarrow> gpu_thread" where
  "fetch_add_write_ptr cmd s =
     s\<lparr>m_command_fifo_write_ptr :=
         m_command_fifo_write_ptr s + cmd_size (m_command_fifo_data s cmd)\<rparr>"

definition PushCommand :: "u32 \<Rightarrow> gpu_thread \<Rightarrow> gpu_thread" where
  "PushCommand cmd s =
     (let s1 = fetch_add_write_ptr cmd s
      in if GetPendingCommandSize s1 \<ge> THRESHOLD_TO_WAKE_GPU then WakeGPUThread s1 else s1)"

definition PushCommandAndWakeThread :: "u32 \<Rightarrow> gpu_thread \<Rightarrow> gpu_thread" where
  "PushCommandAndWakeThread cmd s = WakeGPUThread (fetch_add_write_ptr cmd s)"

definition PushCommandAndSync :: "platform \<Rightarrow> nat \<Rightarrow> (nat \<Rightarrow> s32) \<Rightarrow> u32 \<Rightarrow> bool \<Rightarrow> gpu_thread \<Rightarrow> (sync_result \<times> gpu_thread) option" where
  "PushCommandAndSync P fuel counts cmd spin s =
     SyncGPUThread P fuel counts spin (WakeGPUThread (fetch_add_write_ptr cmd s))"

subsection \<open>The command FIFO, consumer side\<close>

text \<open>
  What the GPU thread does with a command is recorded, in order, as the call it makes:
  the thunk of an \<^verbatim>\<open>AsyncCall\<close>, \<^verbatim>\<open>ChangeGPUBackendOnThread\<close>, \<^verbatim>\<open>UpdateVSyncOnThread\<close>,
  or \<^verbatim>\<open>s_gpu_backend->HandleCommand(cmd)\<close>; the calls that receive \<^verbatim>\<open>cmd\<close> carry its
  offset and the command read there.

  The handlers themselves are not run: \<^verbatim>\<open>func\<close> is a closure of the caller,
  \<^verbatim>\<open>HandleCommand\<close> and \<^verbatim>\<open>UpdateVSyncOnThread\<close> act on the backend and on the device
  through \<^verbatim>\<open>s_gpu_backend\<close> and \<^verbatim>\<open>g_gpu_device\<close>, and \<^verbatim>\<open>ChangeGPUBackendOnThread\<close>
  replaces both and can end the process with a \<^verbatim>\<open>Panic\<close>. The loop below gives the calls
  the GPU thread makes when every handler returns and leaves the FIFO alone, and the
  FIFO pointers as the loop itself stores them; what a call does to the backend and to
  the device, and a handler that ends the process, are not part of it.
\<close>

datatype gpu_call =
  Call_func u32 GPUThreadCommand
| Call_ChangeGPUBackendOnThread
| Call_UpdateVSyncOnThread
| Call_HandleCommand u32 GPUThreadCommand
| Call_PresentFrame

text \<open>
  The inner loop \<^verbatim>\<open>while (read_ptr < write_ptr)\<close> of \<^verbatim>\<open>RunGPULoop\<close>, on the locals
  \<^verbatim>\<open>read_ptr\<close> and \<^verbatim>\<open>write_ptr\<close>. \<open>writes k\<close> is the value of
  \<^verbatim>\<open>m_command_fifo_write_ptr\<close> in memory at the \<open>k\<close>-th load by the GPU thread.
\<close>

fun RunGPULoop_drain :: "nat \<Rightarrow> (nat \<Rightarrow> u32) \<Rightarrow> nat \<Rightarrow> u32 \<Rightarrow> u32 \<Rightarrow> gpu_thread \<Rightarrow> gpu_call list \<Rightarrow> (u32 \<times> nat \<times> gpu_thread \<times> gpu_call list) option" where
  "RunGPULoop_drain 0 writes k read_ptr write_ptr s calls =
     (if read_ptr < write_ptr then None else Some (read_ptr, k, s, calls))"
| "RunGPULoop_drain (Suc fuel) writes k read_ptr write_ptr s calls =
     (if read_ptr < write_ptr
      then
        let cmd = m_command_fifo_data s read_ptr;
            read_ptr1 = read_ptr + cmd_size cmd
        in (case cmd_type cmd of
              Wraparound \<Rightarrow>
                RunGPULoop_drain fuel writes (Suc k) 0 (writes k)
                  (s\<lparr>m_command_fifo_write_ptr := writes k, m_command_fifo_read_ptr := 0\<rparr>) calls
            | AsyncCall \<Rightarrow>
                RunGPULoop_drain fuel writes k read_ptr1 write_ptr s (calls @ [Call_func read_ptr cmd])
            | ChangeBackend \<Rightarrow>
                RunGPULoop_drain fuel writes k read_ptr1 write_ptr s
                  (calls @ [Call_ChangeGPUBackendOnThread])
            | UpdateVSync \<Rightarrow>
                RunGPULoop_drain fuel writes k read_ptr1 write_ptr s
                  (calls @ [Call_UpdateVSyncOnThread])
            | BackendCommand t \<Rightarrow>
                RunGPULoop_drain fuel writes k read_ptr1 write_ptr s
                  (calls @ [Call_HandleCommand read_ptr cmd]))
      else Some (read_ptr, k, s, calls))"

text \<open>One pass through the body of the outer \<^verbatim>\<open>for (;;)\<close> of \<^verbatim>\<open>RunGPULoop\<close>.\<close>

datatype pass_result = Pass_break | Pass_idle sleep_result | Pass_drained

definition RunGPULoop_pass :: "nat \<Rightarrow> (nat \<Rightarrow> u32) \<Rightarrow> gpu_thread \<Rightarrow> (pass_result \<times> gpu_call list \<times> gpu_thread) option" where
  "RunGPULoop_pass fuel writes s =
     (let write_ptr = writes 0;
          read_ptr = m_command_fifo_read_ptr s;
          s0 = s\<lparr>m_command_fifo_write_ptr := write_ptr\<rparr>
      in if read_ptr = write_ptr
         then
           (if s_shutdown_flag s0 then Some (Pass_break, [], s0)
            else (case SleepGPUThread fuel (\<not> s_run_idle_flag s0) s0 of
                    None \<Rightarrow> None
                  | Some (Returned_false, s1) \<Rightarrow> Some (Pass_idle Returned_false, [Call_PresentFrame], s1)
                  | Some (r, s1) \<Rightarrow> Some (Pass_idle r, [], s1)))
         else
           (case RunGPULoop_drain fuel writes 1 read_ptr
                   (if write_ptr < read_ptr then COMMAND_QUEUE_SIZE else write_ptr) s0 [] of
              None \<Rightarrow> None
            | Some (read_ptr', k, s1, calls) \<Rightarrow>
                Some (Pass_drained, calls, s1\<lparr>m_command_fifo_read_ptr := read_ptr'\<rparr>)))"

subsection \<open>Backend and device on the GPU thread\<close>

text \<open>
  Modelled from the spec: the macros \<^verbatim>\<open>Assert\<close> and \<^verbatim>\<open>Panic\<close> of common/assert.h, which
  is not among the sources at hand. The spec (section 7): "assertion-style abort", and
  "the process aborts". A failed \<^verbatim>\<open>Assert\<close> and a \<^verbatim>\<open>Panic\<close> end the process; the
  functions that can reach one return \<open>Inl\<close> of it.
\<close>

datatype abort = AssertFailed string | PanicReached string

text \<open>
  What the collaborators answer: whether \<^verbatim>\<open>GPUBackend::Initialize\<close> succeeds on a
  hardware and on a software backend, whether \<^verbatim>\<open>CreateSoftwareBackend\<close> in the fallback
  returns a backend, whether the device for an API can be created, and whether the
  overlay initialisations succeed.
\<close>

record host_env =
  Initialize_returns :: "bool \<Rightarrow> bool"
  CreateSoftwareBackend_returns_backend :: bool
  device_Create_succeeds :: "RenderAPI \<Rightarrow> bool"
  ImGuiManager_Initialize_succeeds :: bool
  FullscreenUI_Initialize_succeeds :: bool

definition DestroyGPUBackendOnThread :: "gpu_thread \<Rightarrow> gpu_thread" where
  "DestroyGPUBackendOnThread s =
     (if s_gpu_backend s = None then s else s\<lparr>s_gpu_backend := None\<rparr>)"

definition DestroyDeviceOnThread :: "gpu_thread \<Rightarrow> gpu_thread" where
  "DestroyDeviceOnThread s =
     (if g_gpu_device s = None then s else s\<lparr>g_gpu_device := None\<rparr>)"

text \<open>
  \<^verbatim>\<open>CreateDeviceOnThread\<close>: the device created for \<^verbatim>\<open>api\<close> reports that API from
  \<^verbatim>\<open>GetRenderAPI\<close>.
\<close>

definition CreateDeviceOnThread :: "host_env \<Rightarrow> RenderAPI \<Rightarrow> gpu_thread \<Rightarrow> bool \<times> gpu_thread" where
  "CreateDeviceOnThread env api s =
     (if \<not> device_Create_succeeds env api
      then (False, s\<lparr>g_gpu_device := None, s_render_api := RenderAPI_None\<rparr>)
      else if \<not> ImGuiManager_Initialize_succeeds env
             \<or> (s_start_fullscreen_ui s \<and> \<not> FullscreenUI_Initialize_succeeds env)
      then (False, s\<lparr>g_gpu_device := None, s_render_api := RenderAPI_None\<rparr>)
      else (True, s\<lparr>g_gpu_device := Some api, s_render_api := api\<rparr>))"

text \<open>
  \<^verbatim>\<open>CreateGPUBackendOnThread\<close>. \<^verbatim>\<open>Initialize\<close> is called once, on the backend created
  first; the backend created in the fallback is stored as \<^verbatim>\<open>CreateSoftwareBackend\<close>
  returned it.
\<close>

definition CreateGPUBackendOnThread :: "host_env \<Rightarrow> bool \<Rightarrow> gpu_thread \<Rightarrow> abort + gpu_thread" where
  "CreateGPUBackendOnThread env clear_vram s =
     (if s_gpu_backend s \<noteq> None then Inl (AssertFailed ''!s_gpu_backend'')
      else
        (case s_requested_renderer s of
           None \<Rightarrow> Inr s
         | Some renderer \<Rightarrow>
             let is_hardware = (renderer \<noteq> Software);
                 created = \<lparr>is_hardware_backend = is_hardware, backend_initialized = False\<rparr>
             in if Initialize_returns env is_hardware
                then Inr (s\<lparr>s_gpu_backend := Some (created\<lparr>backend_initialized := True\<rparr>)\<rparr>)
                else if is_hardware
                then
                  let s1 = s\<lparr>osd_messages := osd_messages s @ [''GPUBackendCreationFailed''],
                             s_requested_renderer := Some Software\<rparr>
                  in if CreateSoftwareBackend_returns_backend env
                     then Inr (s1\<lparr>s_gpu_backend :=
                                 Some \<lparr>is_hardware_backend = False, backend_initialized = False\<rparr>\<rparr>)
                     else Inl (PanicReached ''Failed to initialize software backend.'')
                else Inr (s\<lparr>s_gpu_backend := Some created\<rparr>)))"

text \<open>
  Modelled from the spec: \<^verbatim>\<open>Common::Timer::ConvertValueToSeconds\<close> of common/timer.h,
  which is not among the sources at hand. The spec: "If the interval since the previous
  reset is below a minimum (15 s)". A timer value counts ticks; \<open>v\<close> ticks are below
  \<open>secs\<close> seconds when \<open>v < secs \<cdot> ticks per second\<close>.
\<close>

definition ConvertValueToSeconds_below :: "platform \<Rightarrow> u64 \<Rightarrow> nat \<Rightarrow> bool" where
  "ConvertValueToSeconds_below P v secs = (unat v < secs * timer_ticks_per_second P)"

definition MIN_TIME_BETWEEN_RESETS :: nat where
  "MIN_TIME_BETWEEN_RESETS = 15"

text \<open>\<^verbatim>\<open>HandleGPUDeviceLost\<close>; \<open>current_time\<close> is what \<^verbatim>\<open>GetCurrentValue\<close> returns.\<close>

definition HandleGPUDeviceLost :: "platform \<Rightarrow> host_env \<Rightarrow> u64 \<Rightarrow> gpu_thread \<Rightarrow> abort + gpu_thread" where
  "HandleGPUDeviceLost P env current_time s =
     (if s_last_gpu_reset_time s \<noteq> 0
         \<and> ConvertValueToSeconds_below P (current_time - s_last_gpu_reset_time s)
               MIN_TIME_BETWEEN_RESETS
      then Inl (PanicReached ''Host GPU lost too many times, device is probably completely wedged.'')
      else
        let s1 = s\<lparr>s_last_gpu_reset_time := current_time\<rparr>;
            s2 = DestroyDeviceOnThread (DestroyGPUBackendOnThread s1);
            renderer = (case s_requested_renderer s2 of
                          None \<Rightarrow> g_gpu_settings_gpu_renderer P
                        | Some r \<Rightarrow> r)
        in (case CreateDeviceOnThread env (GetRenderAPIForRenderer P renderer) s2 of
              (False, s3) \<Rightarrow> Inl (PanicReached ''Failed to recreate GPU device after loss.'')
            | (True, s3) \<Rightarrow>
                (case CreateGPUBackendOnThread env False s3 of
                   Inl a \<Rightarrow> Inl a
                 | Inr s4 \<Rightarrow> Inr (s4\<lparr>osd_messages := osd_messages s4 @ [''HostGPUDeviceLost'']\<rparr>))))"

subsection \<open>Facade\<close>

definition IsStarted :: "gpu_thread \<Rightarrow> bool" where
  "IsStarted s = m_gpu_thread_joinable s"

text \<open>
  \<^verbatim>\<open>SetVSync\<close>. \<open>None\<close>: \<^verbatim>\<open>AllocateCommand\<close> has not returned within \<open>fuel\<close> rounds.
\<close>

definition SetVSync :: "platform \<Rightarrow> nat \<Rightarrow> (nat \<Rightarrow> u32) \<Rightarrow> GPUVSyncMode \<Rightarrow> bool \<Rightarrow> gpu_thread \<Rightarrow> (abort + gpu_thread) option" where
  "SetVSync P fuel reads mode allow_present_throttle s =
     (if \<not> IsStarted s then Some (Inl (AssertFailed ''IsStarted()''))
      else if s_requested_vsync s = mode
              \<and> s_requested_allow_present_throttle s = allow_present_throttle
      then Some (Inr s)
      else
        let s1 = s\<lparr>s_requested_vsync := mode,
                   s_requested_allow_present_throttle := allow_present_throttle\<rparr>
        in (case AllocateCommand P fuel reads UpdateVSync
                   (word_of_nat (sizeof_GPUThreadCommand P)) s1 of
              (None, s2) \<Rightarrow> None
            | (Some cmd, s2) \<Rightarrow> Some (Inr (PushCommandAndWakeThread cmd s2))))"

subsection \<open>States for concrete runs\<close>

text \<open>
  The static initialisers of the namespace, over given contents of the FIFO array, and
  a FIFO array nobody has written to.
\<close>

definition initial_state :: "(u32 \<Rightarrow> GPUThreadCommand) \<Rightarrow> gpu_thread" where
  "initial_state mem =
     \<lparr>s_render_api = RenderAPI_None, s_gpu_backend = None, g_gpu_device = None,
      s_requested_renderer = None, s_start_fullscreen_ui = False,
      s_requested_vsync = Disabled, s_requested_allow_present_throttle = False,
      m_gpu_thread_joinable = False, s_shutdown_flag = False, s_run_idle_flag = False,
      m_command_fifo_data = mem, m_command_fifo_read_ptr = 0, m_command_fifo_write_ptr = 0,
      s_thread_wake_semaphore = 0, s_thread_is_done_semaphore = 0, s_thread_wake_count = 0,
      s_last_gpu_reset_time = 0, osd_messages = []\<rparr>"

definition unwritten_memory :: "u32 \<Rightarrow> GPUThreadCommand" where
  "unwritten_memory = (\<lambda>p. \<lparr>cmd_type = Wraparound, cmd_size = 0, cmd_params_bits = 0, cmd_payload = []\<rparr>)"

text \<open>The loads of a pointer that the other thread leaves at \<open>p\<close> meanwhile.\<close>

definition stays_at :: "u32 \<Rightarrow> nat \<Rightarrow> u32" where
  "stays_at p k = p"

text \<open>
  One command handed over by the CPU thread while the GPU thread makes no store:
  \<^verbatim>\<open>AllocateCommand\<close>, the caller's stores of the payload, \<^verbatim>\<open>PushCommand\<close>.
\<close>

definition publish_command :: "platform \<Rightarrow> GPUBackendCommandType \<Rightarrow> u32 \<Rightarrow> u8 list \<Rightarrow> gpu_thread \<Rightarrow> u32 option \<times> gpu_thread" where
  "publish_command P command sz bytes s =
     (case AllocateCommand P (Suc (Suc 0)) (stays_at (m_command_fifo_read_ptr s)) command sz s of
        (None, s1) \<Rightarrow> (None, s1)
      | (Some cmd, s1) \<Rightarrow> (Some cmd, PushCommand cmd (store_command_payload cmd bytes s1)))"

text \<open>
  Commands published one after the other, each given by its type, the size asked for
  and its payload; the cells they leave in the array from offset \<open>p\<close> on; and that each
  of them fits before the end of the array, so that no wrap is needed.
\<close>

type_synonym request = "GPUBackendCommandType \<times> u32 \<times> u8 list"

fun publish_commands :: "platform \<Rightarrow> request list \<Rightarrow> gpu_thread \<Rightarrow> gpu_thread" where
  "publish_commands P [] s = s"
| "publish_commands P ((command, sz, bytes) # rs) s =
     publish_commands P rs (snd (publish_command P command sz bytes s))"

fun published_cells :: "(u32 \<Rightarrow> GPUThreadCommand) \<Rightarrow> nat \<Rightarrow> request list \<Rightarrow> GPUThreadCommand list" where
  "published_cells mem p [] = []"
| "published_cells mem p ((command, sz, bytes) # rs) =
     (mem (word_of_nat p))\<lparr>cmd_type := command, cmd_size := AlignUpPow2 sz 4, cmd_payload := bytes\<rparr>
     # published_cells mem (p + unat (AlignUpPow2 sz 4)) rs"

fun requests_fit :: "platform \<Rightarrow> nat \<Rightarrow> request list \<Rightarrow> bool" where
  "requests_fit P p [] = True"
| "requests_fit P p ((command, sz, bytes) # rs) =
     (command \<noteq> Wraparound \<and> 0 < unat (AlignUpPow2 sz 4)
      \<and> p + unat (AlignUpPow2 sz 4) + sizeof_GPUBackendCommand P \<le> unat COMMAND_QUEUE_SIZE
      \<and> requests_fit P (p + unat (AlignUpPow2 sz 4)) rs)"

text \<open>
  A platform for the concrete runs: the sizes of a 64-bit build, a timer that counts
  nanoseconds; and collaborators that always succeed.
\<close>

definition example_platform :: platform where
  "example_platform =
     \<lparr>sizeof_GPUBackendCommand = 8, sizeof_GPUBackendCommandType = 1,
      sizeof_GPUThreadCommand = 8, SPIN_TIME_NS = 1000000,
      timer_ticks_per_second = 1000000000,
      GetRenderAPIForRenderer =
        (\<lambda>r. case r of Software \<Rightarrow> RenderAPI_Of 0 | Hardware k \<Rightarrow> RenderAPI_Of (Suc k)),
      g_gpu_settings_gpu_renderer = Software\<rparr>"

definition cooperative_env :: host_env where
  "cooperative_env =
     \<lparr>Initialize_returns = (\<lambda>hw. True), CreateSoftwareBackend_returns_backend = True,
      device_Create_succeeds = (\<lambda>api. True), ImGuiManager_Initialize_succeeds = True,
      FullscreenUI_Initialize_succeeds = True\<rparr>"

text \<open>
  One pass of the GPU thread while the CPU thread makes no store: the calls it makes,
  and the state it leaves.
\<close>

definition pass_calls :: "nat \<Rightarrow> gpu_thread \<Rightarrow> (pass_result \<times> gpu_call list) option" where
  "pass_calls fuel s =
     map_option (\<lambda>(r, calls, s'). (r, calls))
       (RunGPULoop_pass fuel (stays_at (m_command_fifo_write_ptr s)) s)"

definition pass_state :: "nat \<Rightarrow> gpu_thread \<Rightarrow> gpu_thread" where
  "pass_state fuel s =
     (case RunGPULoop_pass fuel (stays_at (m_command_fifo_write_ptr s)) s of
        None \<Rightarrow> s
      | Some (r, calls, s') \<Rightarrow> s')"

text \<open>
  Three commands of 1 MiB published from the start while the GPU thread has not run,
  and the allocation of a fourth.
\<close>

definition three_published :: gpu_thread where
  "three_published =
     snd (publish_command example_platform (BackendCommand 0) 0x100000 [3]
       (snd (publish_command example_platform (BackendCommand 0) 0x100000 [2]
         (snd (publish_command example_platform (BackendCommand 0) 0x100000 [1]
            (initial_state unwritten_memory))))))"

definition fourth_allocated :: "u32 option \<times> gpu_thread" where
  "fourth_allocated =
     AllocateCommand example_platform (Suc (Suc 0)) (stays_at 0) (BackendCommand 7) 0x100000
       three_published"

text \<open>
  A run that wraps with the GPU thread keeping up: a command of 2 MiB is published and
  drained, then one of 1 MiB is published, then another of 1 MiB, which does not fit
  before the end of the array.
\<close>

definition wrapped_run :: gpu_thread where
  "wrapped_run =
     snd (publish_command example_platform (BackendCommand 3) 0x100000 [3]
       (snd (publish_command example_platform AsyncCall 0x100000 [2]
         (pass_state (Suc (Suc 0))
           (snd (publish_command example_platform (BackendCommand 1) 0x200000 [1]
              (initial_state unwritten_memory)))))))"

text \<open>
  The GPU thread started with the software renderer and arrived at its loop: the device
  and the backend are in place, the FIFO is empty and nothing was written to it.
\<close>

definition running_state :: gpu_thread where
  "running_state =
     (initial_state unwritten_memory)
       \<lparr>m_gpu_thread_joinable := True,
        s_requested_renderer := Some Software,
        s_gpu_backend := Some \<lparr>is_hardware_backend = False, backend_initialized = True\<rparr>,
        g_gpu_device := Some (RenderAPI_Of 0), s_render_api := RenderAPI_Of 0\<rparr>"

text \<open>
  Three backend commands of 1 MiB, told apart by type and payload, published on that
  thread before it has made a pass; and the publication of a fourth.
\<close>

definition three_pending :: gpu_thread where
  "three_pending =
     publish_commands example_platform
       [(BackendCommand 1, 0x100000, [1]), (BackendCommand 2, 0x100000, [2]),
        (BackendCommand 3, 0x100000, [3])]
       running_state"

definition fourth_published :: "u32 option \<times> gpu_thread" where
  "fourth_published =
     publish_command example_platform (BackendCommand 4) 0x100000 [4] three_pending"

text \<open>The state after a recovered device loss at time \<open>t\<close> with the software renderer.\<close>

definition recovered_state :: "u64 \<Rightarrow> gpu_thread" where
  "recovered_state t =
     (initial_state unwritten_memory)
       \<lparr>s_requested_renderer := Some Software,
        s_last_gpu_reset_time := t,
        s_gpu_backend := Some \<lparr>is_hardware_backend = False, backend_initialized = True\<rparr>,
        g_gpu_device := Some (RenderAPI_Of 0), s_render_api := RenderAPI_Of 0,
        osd_messages := [''HostGPUDeviceLost'']\<rparr>"

subsection \<open>Notions the claims are stated with\<close>

text \<open>
  The commands laid out one after the other in the FIFO array from offset \<open>p\<close> up to
  offset \<open>q\<close>, none of them a \<^verbatim>\<open>Wraparound\<close>, and the calls the GPU thread owes them, in
  the order of the offsets.
\<close>

fun slots_at :: "(u32 \<Rightarrow> GPUThreadCommand) \<Rightarrow> nat \<Rightarrow> GPUThreadCommand list \<Rightarrow> nat \<Rightarrow> bool" where
  "slots_at mem p [] q = (p = q)"
| "slots_at mem p (c # cs) q =
     (mem (word_of_nat p) = c \<and> cmd_type c \<noteq> Wraparound \<and> 0 < unat (cmd_size c)
      \<and> slots_at mem (p + unat (cmd_size c)) cs q)"

definition call_of :: "u32 \<Rightarrow> GPUThreadCommand \<Rightarrow> gpu_call list" where
  "call_of p c =
     (case cmd_type c of
        Wraparound \<Rightarrow> []
      | AsyncCall \<Rightarrow> [Call_func p c]
      | ChangeBackend \<Rightarrow> [Call_ChangeGPUBackendOnThread]
      | UpdateVSync \<Rightarrow> [Call_UpdateVSyncOnThread]
      | BackendCommand t \<Rightarrow> [Call_HandleCommand p c])"

fun calls_for :: "nat \<Rightarrow> GPUThreadCommand list \<Rightarrow> gpu_call list" where
  "calls_for p [] = []"
| "calls_for p (c # cs) = call_of (word_of_nat p) c @ calls_for (p + unat (cmd_size c)) cs"

text \<open>
  The recovery from a device loss in the spec's words: "destroy backend and device,
  attempt re-creation with the currently-requested renderer; on re-creation failure,
  abort. Post a user-visible warning". The backend is re-created by
  \<^verbatim>\<open>CreateGPUBackendOnThread\<close>.
\<close>

definition recovery_after_loss :: "platform \<Rightarrow> host_env \<Rightarrow> u64 \<Rightarrow> gpu_thread \<Rightarrow> abort + gpu_thread" where
  "recovery_after_loss P env t s =
     (let api = GetRenderAPIForRenderer P
                  (case s_requested_renderer s of
                     None \<Rightarrow> g_gpu_settings_gpu_renderer P
                   | Some r \<Rightarrow> r);
          device_recreated =
            (device_Create_succeeds env api \<and> ImGuiManager_Initialize_succeeds env
             \<and> (if s_start_fullscreen_ui s then FullscreenUI_Initialize_succeeds env else True))
      in if \<not> device_recreated
         then Inl (PanicReached ''Failed to recreate GPU device after loss.'')
         else (case CreateGPUBackendOnThread env False
                      (s\<lparr>s_last_gpu_reset_time := t, s_gpu_backend := None,
                         g_gpu_device := Some api, s_render_api := api\<rparr>) of
                 Inl a \<Rightarrow> Inl a
               | Inr s' \<Rightarrow> Inr (s'\<lparr>osd_messages := osd_messages s' @ [''HostGPUDeviceLost'']\<rparr>)))"

section \<open>Properties\<close>

subsection \<open>Evaluating concrete runs\<close>

declare RunGPULoop_drain.simps [simp del]

lemmas producer_run_simps =
  publish_command_def AllocateCommand_def AlignUpPow2_def initial_state_def
  COMMAND_QUEUE_SIZE_def store_command_header_def store_wraparound_def Let_def
  store_command_payload_def PushCommand_def fetch_add_write_ptr_def
  GetPendingCommandSize_def THRESHOLD_TO_WAKE_GPU_def WakeGPUThread_def example_platform_def
  unwritten_memory_def stays_at_def

lemmas consumer_run_simps =
  RunGPULoop_drain.simps pass_calls_def pass_state_def RunGPULoop_pass_def
  GetThreadWakeCount_def THREAD_WAKE_COUNT_CPU_THREAD_IS_WAITING_def
  THREAD_WAKE_COUNT_SLEEPING_def

lemmas lifecycle_run_simps =
  HandleGPUDeviceLost_def example_platform_def cooperative_env_def initial_state_def
  DestroyDeviceOnThread_def DestroyGPUBackendOnThread_def CreateDeviceOnThread_def
  CreateGPUBackendOnThread_def Let_def recovered_state_def ConvertValueToSeconds_below_def
  MIN_TIME_BETWEEN_RESETS_def

lemma unat_COMMAND_QUEUE_SIZE: "unat COMMAND_QUEUE_SIZE = 4194304"
  by (simp add: COMMAND_QUEUE_SIZE_def)

lemma WakeGPUThread_fifo [simp]:
  "m_command_fifo_write_ptr (WakeGPUThread s) = m_command_fifo_write_ptr s"
  "m_command_fifo_read_ptr (WakeGPUThread s) = m_command_fifo_read_ptr s"
  "m_command_fifo_data (WakeGPUThread s) = m_command_fifo_data s"
  by (simp_all add: WakeGPUThread_def Let_def)


subsection \<open>Signed reading of the wake count\<close>

lemma bit_CPU_THREAD_IS_WAITING:
  "bit THREAD_WAKE_COUNT_CPU_THREAD_IS_WAITING n \<longleftrightarrow> n = 30"
proof -
  have "THREAD_WAKE_COUNT_CPU_THREAD_IS_WAITING = (2::s32) ^ 30"
    by (simp add: THREAD_WAKE_COUNT_CPU_THREAD_IS_WAITING_def)
  then have "bit THREAD_WAKE_COUNT_CPU_THREAD_IS_WAITING n \<longleftrightarrow> bit ((2::s32) ^ 30) n"
    by (simp only:)
  also have "\<dots> \<longleftrightarrow> n = 30"
    by (simp only: bit_exp_iff) auto
  finally show ?thesis .
qed

lemma waiting_flag_eq:
  "(w::s32) AND THREAD_WAKE_COUNT_CPU_THREAD_IS_WAITING =
     (if bit w 30 then THREAD_WAKE_COUNT_CPU_THREAD_IS_WAITING else 0)"
  by (rule bit_word_eqI) (auto simp: bit_and_iff bit_CPU_THREAD_IS_WAITING)

lemma GetThreadWakeCount_unset_bit: "GetThreadWakeCount w = unset_bit 30 w"
  unfolding GetThreadWakeCount_def
  by (rule bit_word_eqI)
     (auto simp: bit_and_iff bit_not_iff bit_unset_bit_iff bit_CPU_THREAD_IS_WAITING)

lemma GetThreadWakeCount_minus:
  "GetThreadWakeCount w =
     w - (if bit w 30 then THREAD_WAKE_COUNT_CPU_THREAD_IS_WAITING else 0)"
  by (simp add: GetThreadWakeCount_unset_bit unset_bit_eq
        THREAD_WAKE_COUNT_CPU_THREAD_IS_WAITING_def)

lemma bit_s32_odd: "n < 32 \<Longrightarrow> bit (w::s32) n \<longleftrightarrow> odd (uint w div 2 ^ n)"
proof -
  assume "n < 32"
  then have "bit w n \<longleftrightarrow> bit (uint w) n" by (simp add: bit_uint_iff)
  then show ?thesis by (simp only: bit_iff_odd)
qed

lemma odd_div_top: "0 \<le> (x::int) \<Longrightarrow> x < 2 ^ 32 \<Longrightarrow> odd (x div 2 ^ 31) \<longleftrightarrow> 2 ^ 31 \<le> x"
proof -
  assume a: "0 \<le> x" "x < 2 ^ 32"
  show ?thesis
  proof (cases "x < 2 ^ 31")
    case True
    then have "x div 2 ^ 31 = 0" using a by (simp add: div_pos_pos_trivial)
    then show ?thesis using True by simp
  next
    case False
    then have "(x - 2 ^ 31) div 2 ^ 31 = 0" using a by (simp add: div_pos_pos_trivial)
    moreover have "x div 2 ^ 31 = (x - 2 ^ 31) div 2 ^ 31 + 1"
      by (simp add: div_diff)
    ultimately show ?thesis using False by simp
  qed
qed

lemma sint_nonneg_iff: "0 \<le> sint (w::s32) \<longleftrightarrow> uint w < 2 ^ 31"
proof -
  have r: "0 \<le> uint w" "uint w < 2 ^ 32" using uint_lt2p [of w] by simp_all
  have "sint w < 0 \<longleftrightarrow> bit w 31" using bit_last_iff [of w] by simp
  also have "\<dots> \<longleftrightarrow> odd (uint w div 2 ^ 31)" by (rule bit_s32_odd) simp
  also have "\<dots> \<longleftrightarrow> 2 ^ 31 \<le> uint w" using r by (rule odd_div_top)
  finally show ?thesis by linarith
qed

lemma sint_eq_uint_small: "uint (w::s32) < 2 ^ 31 \<Longrightarrow> sint w = uint w"
proof -
  assume a: "uint w < 2 ^ 31"
  have "- (2 ^ 31) \<le> uint w" by (rule order_trans [of _ 0]) simp_all
  then have "signed_take_bit 31 (uint w) = uint w"
    using a by (intro signed_take_bit_int_eq_self)
  then show ?thesis by (simp add: sint_uint)
qed

lemma bit30_small: "uint (c::s32) < 2 ^ 30 \<Longrightarrow> \<not> bit c 30"
proof -
  assume "uint c < 2 ^ 30"
  then have "uint c div 2 ^ 30 = 0" by (simp add: div_pos_pos_trivial)
  then show ?thesis by (simp add: bit_s32_odd)
qed

lemma bit30_plus_flag:
  assumes "uint (c::s32) < 2 ^ 30"
  shows "bit (c + THREAD_WAKE_COUNT_CPU_THREAD_IS_WAITING) 30"
proof -
  have "uint (c + THREAD_WAKE_COUNT_CPU_THREAD_IS_WAITING) = uint c + 2 ^ 30"
    using assms
    by (simp add: uint_word_ariths THREAD_WAKE_COUNT_CPU_THREAD_IS_WAITING_def take_bit_eq_mod)
  moreover have "uint c div 2 ^ 30 = 0"
    using assms by (simp add: div_pos_pos_trivial)
  then have "(uint c + 2 ^ 30) div 2 ^ 30 = 1"
    using div_add_self2 [of "2 ^ 30" "uint c"] by simp
  ultimately show ?thesis by (simp add: bit_s32_odd)
qed

lemma add_two_keeps_bit30:
  assumes "0 \<le> sint (GetThreadWakeCount w)" and "sint (GetThreadWakeCount w) < 0x3FFFFFFE"
  shows "bit (w + 2) 30 = bit w 30"
proof -
  let ?c = "GetThreadWakeCount w"
  have u: "uint ?c < 2 ^ 31" using assms(1) by (simp add: sint_nonneg_iff)
  then have "sint ?c = uint ?c" by (rule sint_eq_uint_small)
  then have c: "uint ?c < 0x3FFFFFFE" using assms(2) by simp
  then have c2: "uint (?c + 2) = uint ?c + 2"
    by (simp add: uint_word_ariths take_bit_eq_mod)
  then have s: "uint (?c + 2) < 2 ^ 30" using c by simp
  show ?thesis
  proof (cases "bit w 30")
    case True
    then have e: "w + 2 = (?c + 2) + THREAD_WAKE_COUNT_CPU_THREAD_IS_WAITING"
      by (simp add: GetThreadWakeCount_minus)
    have "bit (w + 2) 30" unfolding e using s by (rule bit30_plus_flag)
    then show ?thesis using True by simp
  next
    case False
    then have e: "?c = w" by (simp add: GetThreadWakeCount_minus)
    have "\<not> bit (?c + 2) 30" using s by (rule bit30_small)
    then have "\<not> bit (w + 2) 30" unfolding e .
    then show ?thesis using False by simp
  qed
qed

lemma add_two_flag_and_count:
  assumes "0 \<le> sint (GetThreadWakeCount w)" and "sint (GetThreadWakeCount w) < 0x3FFFFFFE"
  shows "(w + 2) AND THREAD_WAKE_COUNT_CPU_THREAD_IS_WAITING
           = w AND THREAD_WAKE_COUNT_CPU_THREAD_IS_WAITING"
    and "GetThreadWakeCount (w + 2) = GetThreadWakeCount w + 2"
  using add_two_keeps_bit30 [OF assms]
  by (simp_all add: waiting_flag_eq GetThreadWakeCount_minus)

subsection \<open>WakeGPUThread\<close>

text \<open>
  C4, as stated: the flag bit is never altered by a wake. It fails when the GPU thread
  sleeps: the sleeping value \<open>-1\<close> has every bit set, the flag bit among them, and the
  wake leaves the value \<open>1\<close>, where the flag bit is clear.
\<close>

theorem WakeGPUThread_flag_counterexample:
  "s_thread_wake_count (WakeGPUThread ((initial_state unwritten_memory)\<lparr>s_thread_wake_count := - 1\<rparr>))
       AND THREAD_WAKE_COUNT_CPU_THREAD_IS_WAITING
     \<noteq> s_thread_wake_count ((initial_state unwritten_memory)\<lparr>s_thread_wake_count := - 1\<rparr>)
       AND THREAD_WAKE_COUNT_CPU_THREAD_IS_WAITING"
  by (simp add: WakeGPUThread_def initial_state_def THREAD_WAKE_COUNT_CPU_THREAD_IS_WAITING_def)

text \<open>
  C4, amended: every call of \<^verbatim>\<open>WakeGPUThread\<close> adds exactly 2 to the wake state and posts
  the wake semaphore once if and only if the value before the addition was negative;
  when the pending-work count before the call is non-negative and below \<open>0x3FFFFFFE\<close>,
  the waiting flag is unchanged and the pending-work count has grown by 2.
\<close>

theorem WakeGPUThread_adds_two:
  "s_thread_wake_count (WakeGPUThread s) = s_thread_wake_count s + 2
   \<and> s_thread_wake_semaphore (WakeGPUThread s)
       = s_thread_wake_semaphore s + (if sint (s_thread_wake_count s) < 0 then 1 else 0)
   \<and> (0 \<le> sint (GetThreadWakeCount (s_thread_wake_count s))
        \<and> sint (GetThreadWakeCount (s_thread_wake_count s)) < 0x3FFFFFFE
       \<longrightarrow> s_thread_wake_count (WakeGPUThread s) AND THREAD_WAKE_COUNT_CPU_THREAD_IS_WAITING
             = s_thread_wake_count s AND THREAD_WAKE_COUNT_CPU_THREAD_IS_WAITING
           \<and> GetThreadWakeCount (s_thread_wake_count (WakeGPUThread s))
             = GetThreadWakeCount (s_thread_wake_count s) + 2)"
proof -
  have a: "s_thread_wake_count (WakeGPUThread s) = s_thread_wake_count s + 2"
    by (simp add: WakeGPUThread_def Let_def)
  have b: "s_thread_wake_semaphore (WakeGPUThread s)
       = s_thread_wake_semaphore s + (if sint (s_thread_wake_count s) < 0 then 1 else 0)"
    by (simp add: WakeGPUThread_def Let_def)
  show ?thesis
    unfolding a using b add_two_flag_and_count [of "s_thread_wake_count s"] by blast
qed

theorem WakeGPUThread_adds_two_witness:
  "0 \<le> sint (GetThreadWakeCount 0x40000004)
   \<and> sint (GetThreadWakeCount 0x40000004) < 0x3FFFFFFE
   \<and> s_thread_wake_count
        (WakeGPUThread ((initial_state unwritten_memory)\<lparr>s_thread_wake_count := 0x40000004\<rparr>))
      = 0x40000006
   \<and> s_thread_wake_semaphore
        (WakeGPUThread ((initial_state unwritten_memory)\<lparr>s_thread_wake_count := 0x40000004\<rparr>))
      = 0
   \<and> GetThreadWakeCount (s_thread_wake_count
        (WakeGPUThread ((initial_state unwritten_memory)\<lparr>s_thread_wake_count := 0x40000004\<rparr>)))
      = 6"
  using WakeGPUThread_adds_two
          [of "(initial_state unwritten_memory)\<lparr>s_thread_wake_count := 0x40000004\<rparr>"]
  by (simp add: initial_state_def GetThreadWakeCount_def
        THREAD_WAKE_COUNT_CPU_THREAD_IS_WAITING_def)

subsection \<open>PushCommand\<close>

lemma GetPendingCommandSize_nat:
  assumes r: "unat (m_command_fifo_read_ptr s) < 4194304"
    and w: "unat (m_command_fifo_write_ptr s) < 4194304"
  shows "unat (GetPendingCommandSize s)
         = (unat (m_command_fifo_write_ptr s) + 4194304 - unat (m_command_fifo_read_ptr s))
             mod 4194304"
proof (cases "m_command_fifo_read_ptr s \<le> m_command_fifo_write_ptr s")
  case True
  then have le: "unat (m_command_fifo_read_ptr s) \<le> unat (m_command_fifo_write_ptr s)"
    by (simp add: word_le_nat_alt)
  have "unat (GetPendingCommandSize s)
        = unat (m_command_fifo_write_ptr s) - unat (m_command_fifo_read_ptr s)"
    using True by (simp add: GetPendingCommandSize_def Let_def unat_sub)
  also have "\<dots> = (unat (m_command_fifo_write_ptr s) + 4194304
                      - unat (m_command_fifo_read_ptr s)) mod 4194304"
    using le w by (simp add: mod_if)
  finally show ?thesis .
next
  case False
  then have lt: "unat (m_command_fifo_write_ptr s) < unat (m_command_fifo_read_ptr s)"
    by (simp add: word_le_nat_alt)
  have rc: "m_command_fifo_read_ptr s \<le> COMMAND_QUEUE_SIZE"
    using r by (simp add: word_le_nat_alt unat_COMMAND_QUEUE_SIZE)
  have a: "unat (COMMAND_QUEUE_SIZE - m_command_fifo_read_ptr s)
           = 4194304 - unat (m_command_fifo_read_ptr s)"
    using rc by (simp add: unat_sub unat_COMMAND_QUEUE_SIZE)
  have "unat (COMMAND_QUEUE_SIZE - m_command_fifo_read_ptr s + m_command_fifo_write_ptr s)
        = 4194304 - unat (m_command_fifo_read_ptr s) + unat (m_command_fifo_write_ptr s)"
    using a w by (simp add: unat_word_ariths take_bit_eq_mod)
  then have "unat (GetPendingCommandSize s)
             = 4194304 - unat (m_command_fifo_read_ptr s) + unat (m_command_fifo_write_ptr s)"
    using False by (simp add: GetPendingCommandSize_def Let_def)
  also have "\<dots> = (unat (m_command_fifo_write_ptr s) + 4194304
                      - unat (m_command_fifo_read_ptr s)) mod 4194304"
    using lt r by (auto simp: mod_if)
  finally show ?thesis .
qed

lemma GetPendingCommandSize_mod:
  assumes "unat (m_command_fifo_read_ptr s) < unat COMMAND_QUEUE_SIZE"
    and "unat (m_command_fifo_write_ptr s) < unat COMMAND_QUEUE_SIZE"
  shows "unat (GetPendingCommandSize s)
         = (unat (m_command_fifo_write_ptr s) + unat COMMAND_QUEUE_SIZE
              - unat (m_command_fifo_read_ptr s)) mod unat COMMAND_QUEUE_SIZE"
  using assms GetPendingCommandSize_nat [of s] by (simp add: unat_COMMAND_QUEUE_SIZE)

text \<open>
  C10: every \<^verbatim>\<open>PushCommand\<close> advances the write pointer by the size of the command, and,
  with both pointers inside the array, wakes the GPU thread exactly when the bytes
  pending after the push, \<open>(write - read) mod C\<close>, are at least
  \<^verbatim>\<open>THRESHOLD_TO_WAKE_GPU\<close>; the wake is the \<^verbatim>\<open>fetch_add(2)\<close> with its post when the
  count was negative.
\<close>

theorem PushCommand_threshold_wake:
  "m_command_fifo_write_ptr (PushCommand cmd s)
     = m_command_fifo_write_ptr s + cmd_size (m_command_fifo_data s cmd)
   \<and> (unat (m_command_fifo_read_ptr s) < unat COMMAND_QUEUE_SIZE
        \<and> unat (m_command_fifo_write_ptr s) + unat (cmd_size (m_command_fifo_data s cmd))
            < unat COMMAND_QUEUE_SIZE
       \<longrightarrow> (let pending = (unat (m_command_fifo_write_ptr s)
                              + unat (cmd_size (m_command_fifo_data s cmd))
                              + unat COMMAND_QUEUE_SIZE
                              - unat (m_command_fifo_read_ptr s)) mod unat COMMAND_QUEUE_SIZE
            in s_thread_wake_count (PushCommand cmd s)
                 = (if unat THRESHOLD_TO_WAKE_GPU \<le> pending
                    then s_thread_wake_count s + 2 else s_thread_wake_count s)
               \<and> s_thread_wake_semaphore (PushCommand cmd s)
                 = (if unat THRESHOLD_TO_WAKE_GPU \<le> pending \<and> sint (s_thread_wake_count s) < 0
                    then s_thread_wake_semaphore s + 1 else s_thread_wake_semaphore s)))"
proof -
  let ?s1 = "fetch_add_write_ptr cmd s"
  let ?sz = "cmd_size (m_command_fifo_data s cmd)"
  have w1: "m_command_fifo_write_ptr ?s1 = m_command_fifo_write_ptr s + ?sz"
    and r1: "m_command_fifo_read_ptr ?s1 = m_command_fifo_read_ptr s"
    and c1: "s_thread_wake_count ?s1 = s_thread_wake_count s"
    and m1: "s_thread_wake_semaphore ?s1 = s_thread_wake_semaphore s"
    by (simp_all add: fetch_add_write_ptr_def)
  have first: "m_command_fifo_write_ptr (PushCommand cmd s) = m_command_fifo_write_ptr s + ?sz"
    using w1 by (simp add: PushCommand_def Let_def)
  have second: "s_thread_wake_count (PushCommand cmd s)
                 = (if unat THRESHOLD_TO_WAKE_GPU \<le> p
                    then s_thread_wake_count s + 2 else s_thread_wake_count s)
               \<and> s_thread_wake_semaphore (PushCommand cmd s)
                 = (if unat THRESHOLD_TO_WAKE_GPU \<le> p \<and> sint (s_thread_wake_count s) < 0
                    then s_thread_wake_semaphore s + 1 else s_thread_wake_semaphore s)"
    if r: "unat (m_command_fifo_read_ptr s) < unat COMMAND_QUEUE_SIZE"
      and w: "unat (m_command_fifo_write_ptr s) + unat ?sz < unat COMMAND_QUEUE_SIZE"
      and p: "p = (unat (m_command_fifo_write_ptr s) + unat ?sz + unat COMMAND_QUEUE_SIZE
                     - unat (m_command_fifo_read_ptr s)) mod unat COMMAND_QUEUE_SIZE"
    for p
  proof -
    have "unat (m_command_fifo_write_ptr s) + unat ?sz < 2 ^ 32"
      using w by (simp add: unat_COMMAND_QUEUE_SIZE)
    then have u: "unat (m_command_fifo_write_ptr ?s1)
                  = unat (m_command_fifo_write_ptr s) + unat ?sz"
      unfolding w1 by (simp add: unat_add_lem [THEN iffD1])
    have "unat (GetPendingCommandSize ?s1) = p"
      unfolding p using GetPendingCommandSize_mod [of ?s1] r w u r1 by simp
    then have t: "THRESHOLD_TO_WAKE_GPU \<le> GetPendingCommandSize ?s1
                  \<longleftrightarrow> unat THRESHOLD_TO_WAKE_GPU \<le> p"
      by (simp add: word_le_nat_alt)
    show ?thesis
      using c1 m1 by (simp add: PushCommand_def Let_def t WakeGPUThread_def)
  qed
  show ?thesis using first second by (simp add: Let_def)
qed

theorem PushCommand_threshold_wake_witness:
  "unat (m_command_fifo_read_ptr
           (store_command_header 0 (BackendCommand 0) 512 (initial_state unwritten_memory)))
     < unat COMMAND_QUEUE_SIZE
   \<and> unat (m_command_fifo_write_ptr
           (store_command_header 0 (BackendCommand 0) 512 (initial_state unwritten_memory)))
       + unat (cmd_size (m_command_fifo_data
           (store_command_header 0 (BackendCommand 0) 512 (initial_state unwritten_memory)) 0))
       < unat COMMAND_QUEUE_SIZE
   \<and> m_command_fifo_write_ptr
        (PushCommand 0
           (store_command_header 0 (BackendCommand 0) 512 (initial_state unwritten_memory)))
       = 512
   \<and> s_thread_wake_count
        (PushCommand 0
           (store_command_header 0 (BackendCommand 0) 512 (initial_state unwritten_memory)))
       = 2
   \<and> s_thread_wake_semaphore
        (PushCommand 0
           (store_command_header 0 (BackendCommand 0) 512 (initial_state unwritten_memory)))
       = 0"
  using PushCommand_threshold_wake
          [of 0 "store_command_header 0 (BackendCommand 0) 512 (initial_state unwritten_memory)"]
  by (simp add: store_command_header_def initial_state_def COMMAND_QUEUE_SIZE_def
        THRESHOLD_TO_WAKE_GPU_def Let_def)

subsection \<open>AllocateCommand\<close>

text \<open>
  What holds of every call that returns: the command at the returned offset carries the
  requested type and the aligned size; and the alignment is the round-up to a multiple
  of 4 as long as that fits 32 bits.
\<close>

lemma AlignUpPow2_4_nat:
  assumes "unat sz \<le> 4294967292"
  shows "unat (AlignUpPow2 sz 4) = ((unat sz + 3) div 4) * 4"
proof -
  let ?n = "(unat sz + 4 - 1) div 4 * 4"
  have "?n \<le> unat sz + 3" by simp
  then have "?n < 2 ^ LENGTH(32)" using assms by simp
  then have "?n mod 2 ^ LENGTH(32) = ?n" by (rule mod_less)
  then have "unat (AlignUpPow2 sz 4) = ?n"
    unfolding AlignUpPow2_def unat_of_nat .
  then show ?thesis by simp
qed

lemma AllocateCommand_loop_returns_header:
  "fst (AllocateCommand_loop P fuel reads k command sz s) = Some p
   \<Longrightarrow> cmd_type (m_command_fifo_data (snd (AllocateCommand_loop P fuel reads k command sz s)) p)
         = command
       \<and> cmd_size (m_command_fifo_data (snd (AllocateCommand_loop P fuel reads k command sz s)) p)
         = sz"
proof (induction fuel arbitrary: k s)
  case 0
  then show ?case by simp
next
  case (Suc fuel)
  show ?case
  proof (cases "reads k > m_command_fifo_write_ptr s")
    case True
    with Suc.prems show ?thesis
      by (auto simp: Let_def store_command_header_def split: prod.splits bool.splits)
  next
    case False
    show ?thesis
    proof (cases "unat sz + sizeof_GPUBackendCommand P
                    > unat (COMMAND_QUEUE_SIZE - m_command_fifo_write_ptr s)")
      case True
      with False Suc.prems Suc.IH show ?thesis by (simp add: Let_def)
    next
      case f: False
      with False Suc.prems show ?thesis
        by (auto simp: Let_def store_command_header_def)
    qed
  qed
qed

text \<open>
  The inner loop of the branch \<^verbatim>\<open>read_ptr > write_ptr\<close> has one exit, enough room at
  \<^verbatim>\<open>write_ptr\<close>; the room it sees is never more than what lies between \<^verbatim>\<open>write_ptr\<close>
  and the end of the array.
\<close>

lemma available_behind_reader:
  assumes "wp \<le> COMMAND_QUEUE_SIZE" and "r \<le> COMMAND_QUEUE_SIZE"
  shows "unat (if r > wp then r - wp else COMMAND_QUEUE_SIZE - wp)
           \<le> unat COMMAND_QUEUE_SIZE - unat wp"
proof (cases "r > wp")
  case True
  then have "unat (r - wp) = unat r - unat wp"
    by (simp add: unat_sub word_less_nat_alt word_le_nat_alt)
  moreover have "unat r \<le> unat COMMAND_QUEUE_SIZE"
    using assms(2) by (simp add: word_le_nat_alt)
  ultimately show ?thesis using True by simp
next
  case False
  then show ?thesis using assms(1) by (simp add: unat_sub)
qed

lemma AllocateCommand_wait_starves:
  assumes "\<forall>j. reads j \<le> COMMAND_QUEUE_SIZE"
    and "wp \<le> COMMAND_QUEUE_SIZE"
    and "unat COMMAND_QUEUE_SIZE - unat wp < need"
    and "unat available \<le> unat COMMAND_QUEUE_SIZE - unat wp"
  shows "fst (AllocateCommand_wait fuel reads k wp need available s) = False
         \<and> m_command_fifo_write_ptr (snd (AllocateCommand_wait fuel reads k wp need available s))
             = m_command_fifo_write_ptr s
         \<and> m_command_fifo_data (snd (AllocateCommand_wait fuel reads k wp need available s))
             = m_command_fifo_data s"
  using assms(4)
proof (induction fuel arbitrary: k available s)
  case 0
  then show ?case using assms(3) by simp
next
  case (Suc fuel)
  have lt: "unat available < need" using Suc.prems assms(3) by simp
  let ?a = "if reads k > wp then reads k - wp else COMMAND_QUEUE_SIZE - wp"
  have "unat ?a \<le> unat COMMAND_QUEUE_SIZE - unat wp"
    using assms(1,2) by (intro available_behind_reader) simp_all
  from Suc.IH [OF this] show ?case
    using lt by (simp add: Let_def)
qed

text \<open>
  Every offset \<^verbatim>\<open>AllocateCommand\<close> returns leaves the command inside the array, and is
  the write pointer at the return: the \<^verbatim>\<open>fetch_add\<close> of the publishing functions moves
  the write pointer to the end of the command and not past the end of the array.
\<close>

lemma AllocateCommand_wait_room:
  assumes "\<forall>j. reads j \<le> COMMAND_QUEUE_SIZE"
    and "wp \<le> COMMAND_QUEUE_SIZE"
    and "unat available \<le> unat COMMAND_QUEUE_SIZE - unat wp"
    and "fst (AllocateCommand_wait fuel reads k wp need available s)"
  shows "need \<le> unat COMMAND_QUEUE_SIZE - unat wp"
  using assms(3,4)
proof (induction fuel arbitrary: k available s)
  case 0
  then show ?case by simp
next
  case (Suc fuel)
  show ?case
  proof (cases "unat available < need")
    case False
    then show ?thesis using Suc.prems(1) by simp
  next
    case True
    let ?a = "if reads k > wp then reads k - wp else COMMAND_QUEUE_SIZE - wp"
    have a: "unat ?a \<le> unat COMMAND_QUEUE_SIZE - unat wp"
      using assms(1,2) by (intro available_behind_reader) simp_all
    have "fst (AllocateCommand_wait fuel reads (Suc k) wp need ?a
                 ((WakeGPUThread s)\<lparr>m_command_fifo_read_ptr := reads k\<rparr>))"
      using Suc.prems(2) True by (simp add: Let_def)
    with a show ?thesis by (rule Suc.IH)
  qed
qed

lemma AllocateCommand_wait_write_ptr:
  "m_command_fifo_write_ptr (snd (AllocateCommand_wait fuel reads k wp need available s))
     = m_command_fifo_write_ptr s"
  by (induction fuel arbitrary: k available s) (simp_all add: Let_def)

lemma AllocateCommand_loop_in_bounds:
  assumes "\<forall>j. reads j \<le> COMMAND_QUEUE_SIZE"
    and "m_command_fifo_write_ptr s \<le> COMMAND_QUEUE_SIZE"
    and "fst (AllocateCommand_loop P fuel reads k command sz s) = Some p"
  shows "unat p + unat sz \<le> unat COMMAND_QUEUE_SIZE
         \<and> m_command_fifo_write_ptr (snd (AllocateCommand_loop P fuel reads k command sz s)) = p"
  using assms(2,3)
proof (induction fuel arbitrary: k s)
  case 0
  then show ?case by simp
next
  case (Suc fuel)
  let ?wp = "m_command_fifo_write_ptr s"
  let ?s0 = "s\<lparr>m_command_fifo_read_ptr := reads k\<rparr>"
  have wpn: "unat ?wp \<le> unat COMMAND_QUEUE_SIZE"
    using Suc.prems(1) by (simp add: word_le_nat_alt)
  show ?case
  proof (cases "reads k > ?wp")
    case True
    let ?need = "unat sz + sizeof_GPUBackendCommandType P"
    obtain b s1 where w: "AllocateCommand_wait fuel reads (Suc k) ?wp ?need (reads k - ?wp) ?s0 = (b, s1)"
      by (cases "AllocateCommand_wait fuel reads (Suc k) ?wp ?need (reads k - ?wp) ?s0")
    with True Suc.prems(2) have b: "b" and p: "p = ?wp"
      by (cases b; simp add: Let_def)+
    have av: "unat (reads k - ?wp) \<le> unat COMMAND_QUEUE_SIZE - unat ?wp"
      using available_behind_reader [OF Suc.prems(1), of "reads k"] assms(1) True by simp
    have "?need \<le> unat COMMAND_QUEUE_SIZE - unat ?wp"
      using AllocateCommand_wait_room [OF assms(1) Suc.prems(1) av, of fuel "Suc k" ?need ?s0] w b
      by simp
    moreover have "m_command_fifo_write_ptr s1 = ?wp"
      using AllocateCommand_wait_write_ptr [of fuel reads "Suc k" ?wp ?need "reads k - ?wp" ?s0] w
      by simp
    ultimately show ?thesis
      using True w b p wpn by (simp add: Let_def store_command_header_def)
  next
    case False
    have un: "unat (COMMAND_QUEUE_SIZE - ?wp) = unat COMMAND_QUEUE_SIZE - unat ?wp"
      using Suc.prems(1) by (simp add: unat_sub)
    show ?thesis
    proof (cases "unat sz + sizeof_GPUBackendCommand P > unat (COMMAND_QUEUE_SIZE - ?wp)")
      case True
      let ?s' = "store_wraparound ?wp (COMMAND_QUEUE_SIZE - ?wp) ?s0"
      have r: "fst (AllocateCommand_loop P fuel reads (Suc k) command sz ?s') = Some p"
        using Suc.prems(2) False True by (simp add: Let_def)
      have "m_command_fifo_write_ptr ?s' \<le> COMMAND_QUEUE_SIZE"
        by (simp add: store_wraparound_def)
      from Suc.IH [OF this r] show ?thesis
        using False True by (simp add: Let_def)
    next
      case f: False
      with False Suc.prems(2) have p: "p = ?wp" by (simp add: Let_def)
      show ?thesis
        using False f p un wpn by (simp add: Let_def store_command_header_def)
    qed
  qed
qed

text \<open>
  C1, where the code leaves it: a request that would cross the end of the array, made
  while the read pointer is ahead of the write pointer. Whatever values of the read
  pointer the CPU thread sees afterwards (the GPU thread keeps them within the array),
  \<^verbatim>\<open>AllocateCommand\<close> does not return in any number of rounds, stores no
  \<^verbatim>\<open>Wraparound\<close> header and leaves the write pointer where it was.
\<close>

theorem AllocateCommand_spins_behind_reader:
  assumes "m_command_fifo_write_ptr s < reads 0"
    and "\<forall>j. reads j \<le> COMMAND_QUEUE_SIZE"
    and "unat COMMAND_QUEUE_SIZE < unat (m_command_fifo_write_ptr s) + unat (AlignUpPow2 sz 4)"
  shows "fst (AllocateCommand P fuel reads command sz s) = None
         \<and> m_command_fifo_write_ptr (snd (AllocateCommand P fuel reads command sz s))
             = m_command_fifo_write_ptr s
         \<and> m_command_fifo_data (snd (AllocateCommand P fuel reads command sz s))
             = m_command_fifo_data s"
proof (cases fuel)
  case 0
  then show ?thesis by (simp add: AllocateCommand_def)
next
  case (Suc n)
  let ?wp = "m_command_fifo_write_ptr s"
  let ?s0 = "s\<lparr>m_command_fifo_read_ptr := reads 0\<rparr>"
  let ?need = "unat (AlignUpPow2 sz 4) + sizeof_GPUBackendCommandType P"
  have r0: "reads 0 \<le> COMMAND_QUEUE_SIZE" using assms(2) by simp
  then have wp: "?wp \<le> COMMAND_QUEUE_SIZE" using assms(1) by simp
  have "unat ?wp \<le> unat COMMAND_QUEUE_SIZE" using wp by (simp add: word_le_nat_alt)
  then have need: "unat COMMAND_QUEUE_SIZE - unat ?wp < ?need" using assms(3) by linarith
  have av: "unat (reads 0 - ?wp) \<le> unat COMMAND_QUEUE_SIZE - unat ?wp"
    using available_behind_reader [OF wp r0] assms(1) by simp
  obtain b s1
    where w: "AllocateCommand_wait n reads (Suc 0) ?wp ?need (reads 0 - ?wp) ?s0 = (b, s1)"
    by (cases "AllocateCommand_wait n reads (Suc 0) ?wp ?need (reads 0 - ?wp) ?s0")
  have "b = False \<and> m_command_fifo_write_ptr s1 = ?wp
        \<and> m_command_fifo_data s1 = m_command_fifo_data s"
    using AllocateCommand_wait_starves [OF assms(2) wp need av, of n "Suc 0" ?s0] w by simp
  then show ?thesis
    using Suc assms(1) w by (simp add: AllocateCommand_def Let_def)
qed

theorem AllocateCommand_spins_behind_reader_witness:
  "m_command_fifo_write_ptr
     ((initial_state unwritten_memory)\<lparr>m_command_fifo_write_ptr := 0x3FE800\<rparr>)
     < stays_at 0x3FF000 0
   \<and> (\<forall>j. stays_at 0x3FF000 j \<le> COMMAND_QUEUE_SIZE)
   \<and> unat COMMAND_QUEUE_SIZE
       < unat (m_command_fifo_write_ptr
                 ((initial_state unwritten_memory)\<lparr>m_command_fifo_write_ptr := 0x3FE800\<rparr>))
         + unat (AlignUpPow2 8192 4)
   \<and> fst (AllocateCommand example_platform 1000 (stays_at 0x3FF000) (BackendCommand 0) 8192
            ((initial_state unwritten_memory)\<lparr>m_command_fifo_write_ptr := 0x3FE800\<rparr>)) = None
   \<and> m_command_fifo_write_ptr
        (snd (AllocateCommand example_platform 1000 (stays_at 0x3FF000) (BackendCommand 0) 8192
            ((initial_state unwritten_memory)\<lparr>m_command_fifo_write_ptr := 0x3FE800\<rparr>)))
       = 0x3FE800"
proof -
  let ?s = "(initial_state unwritten_memory)\<lparr>m_command_fifo_write_ptr := 0x3FE800\<rparr>"
  let ?reads = "stays_at 0x3FF000"
  have a: "m_command_fifo_write_ptr ?s < ?reads 0"
    by (simp add: initial_state_def stays_at_def)
  have b: "\<forall>j. ?reads j \<le> COMMAND_QUEUE_SIZE"
    by (simp add: COMMAND_QUEUE_SIZE_def stays_at_def)
  have c: "unat COMMAND_QUEUE_SIZE
           < unat (m_command_fifo_write_ptr ?s) + unat (AlignUpPow2 8192 4)"
    by (simp add: COMMAND_QUEUE_SIZE_def AlignUpPow2_def initial_state_def)
  show ?thesis
    using a b c
      AllocateCommand_spins_behind_reader [OF a b c, of example_platform 1000 "BackendCommand 0"]
    by simp
qed

subsection \<open>The FIFO when the producer wraps before the consumer has read\<close>

text \<open>
  C2, where the code leaves it. Three commands of 1 MiB are published while the GPU
  thread has stored no read pointer yet: the pointers are 0 and 3 MiB, and a pass of the
  GPU thread would hand all three to the backend. The allocation of a fourth does not
  fit before the end of the array: \<^verbatim>\<open>AllocateCommand\<close> stores the \<^verbatim>\<open>Wraparound\<close>
  header and the write pointer 0, finds \<open>read \<le> write\<close> again and returns offset 0,
  where the first command still lies unread and now has its header overwritten. The
  read pointer equals the write pointer with three commands unread, and the GPU thread,
  passing now, finds the FIFO empty, makes no call and goes to sleep.
\<close>

theorem wraparound_hides_unread_commands:
  "m_command_fifo_read_ptr three_published = 0
   \<and> m_command_fifo_write_ptr three_published = 0x300000
   \<and> pass_calls (Suc (Suc (Suc 0))) three_published
       = Some (Pass_drained,
           [Call_HandleCommand 0
              \<lparr>cmd_type = BackendCommand 0, cmd_size = 0x100000, cmd_params_bits = 0,
                 cmd_payload = [1]\<rparr>,
            Call_HandleCommand 0x100000
              \<lparr>cmd_type = BackendCommand 0, cmd_size = 0x100000, cmd_params_bits = 0,
                 cmd_payload = [2]\<rparr>,
            Call_HandleCommand 0x200000
              \<lparr>cmd_type = BackendCommand 0, cmd_size = 0x100000, cmd_params_bits = 0,
                 cmd_payload = [3]\<rparr>])
   \<and> fst fourth_allocated = Some 0
   \<and> m_command_fifo_read_ptr (snd fourth_allocated) = 0
   \<and> m_command_fifo_write_ptr (snd fourth_allocated) = 0
   \<and> m_command_fifo_data (snd fourth_allocated) 0x300000
       = \<lparr>cmd_type = Wraparound, cmd_size = 0x100000, cmd_params_bits = 0, cmd_payload = []\<rparr>
   \<and> cmd_type (m_command_fifo_data (snd fourth_allocated) 0) = BackendCommand 7
   \<and> pass_calls (Suc 0) (snd fourth_allocated) = Some (Pass_idle Returned_true, [])
   \<and> pass_calls (Suc 0) (pass_state (Suc 0) (snd fourth_allocated))
       = Some (Pass_idle Blocked_in_Wait, [])"
  unfolding three_published_def fourth_allocated_def
  by (simp add: producer_run_simps consumer_run_simps)

subsection \<open>The inner loop of RunGPULoop\<close>

lemma slots_at_le: "slots_at mem p cs q \<Longrightarrow> p \<le> q"
proof (induction cs arbitrary: p)
  case Nil
  then show ?case by simp
next
  case (Cons c cs)
  then have "p + unat (cmd_size c) \<le> q" by simp
  then show ?case by simp
qed

lemma drain_done:
  "\<not> read_ptr < write_ptr \<Longrightarrow>
     RunGPULoop_drain fuel writes k read_ptr write_ptr s calls = Some (read_ptr, k, s, calls)"
  by (cases fuel) (simp_all add: RunGPULoop_drain.simps)

lemma drain_step:
  assumes "read_ptr < write_ptr" and "cmd_type (m_command_fifo_data s read_ptr) \<noteq> Wraparound"
  shows "RunGPULoop_drain (Suc fuel) writes k read_ptr write_ptr s calls
         = RunGPULoop_drain fuel writes k
             (read_ptr + cmd_size (m_command_fifo_data s read_ptr)) write_ptr s
             (calls @ call_of read_ptr (m_command_fifo_data s read_ptr))"
  using assms
  by (cases "cmd_type (m_command_fifo_data s read_ptr)")
     (simp_all add: RunGPULoop_drain.simps Let_def call_of_def)

lemma drain_wraparound_step:
  assumes "read_ptr < write_ptr" and "cmd_type (m_command_fifo_data s read_ptr) = Wraparound"
  shows "RunGPULoop_drain (Suc fuel) writes k read_ptr write_ptr s calls
         = RunGPULoop_drain fuel writes (Suc k) 0 (writes k)
             (s\<lparr>m_command_fifo_write_ptr := writes k, m_command_fifo_read_ptr := 0\<rparr>) calls"
  using assms by (simp add: RunGPULoop_drain.simps Let_def)

lemma drain_slots:
  assumes "slots_at (m_command_fifo_data s) p cs q" and "q \<le> unat write_ptr"
  shows "RunGPULoop_drain (length cs + fuel) writes k (word_of_nat p) write_ptr s calls
         = RunGPULoop_drain fuel writes k (word_of_nat q) write_ptr s (calls @ calls_for p cs)"
  using assms(1)
proof (induction cs arbitrary: p calls)
  case Nil
  then show ?case by simp
next
  case (Cons c cs)
  let ?n = "unat (cmd_size c)"
  from Cons.prems have c: "m_command_fifo_data s (word_of_nat p) = c"
    and ty: "cmd_type c \<noteq> Wraparound" and pos: "0 < ?n"
    and rest: "slots_at (m_command_fifo_data s) (p + ?n) cs q"
    by simp_all
  have "p + ?n \<le> q" using rest by (rule slots_at_le)
  then have pq: "p < q" using pos by simp
  have q32: "q < 2 ^ 32" using assms(2) unsigned_less [of write_ptr, where 'a = nat] by simp
  then have up: "unat (word_of_nat p :: u32) = p" using pq by (simp add: unat_of_nat)
  then have lt: "(word_of_nat p :: u32) < write_ptr"
    using pq assms(2) by (simp add: word_less_nat_alt)
  have nxt: "(word_of_nat p :: u32) + cmd_size c = word_of_nat (p + ?n)"
    by simp
  have ty': "cmd_type (m_command_fifo_data s (word_of_nat p)) \<noteq> Wraparound"
    unfolding c by (rule ty)
  have "RunGPULoop_drain (length (c # cs) + fuel) writes k (word_of_nat p) write_ptr s calls
        = RunGPULoop_drain (Suc (length cs + fuel)) writes k (word_of_nat p) write_ptr s calls"
    by simp
  also have "\<dots> = RunGPULoop_drain (length cs + fuel) writes k
             (word_of_nat p + cmd_size (m_command_fifo_data s (word_of_nat p))) write_ptr s
             (calls @ call_of (word_of_nat p) (m_command_fifo_data s (word_of_nat p)))"
    using lt ty' by (rule drain_step)
  also have "\<dots> = RunGPULoop_drain (length cs + fuel) writes k (word_of_nat (p + ?n)) write_ptr s
            (calls @ call_of (word_of_nat p) c)"
    by (simp only: c nxt)
  also have "\<dots> = RunGPULoop_drain fuel writes k (word_of_nat q) write_ptr s
                      ((calls @ call_of (word_of_nat p) c) @ calls_for (p + ?n) cs)"
    by (rule Cons.IH [OF rest])
  finally show ?case by simp
qed

lemma drain_calls_grow:
  "RunGPULoop_drain fuel writes k read_ptr write_ptr s calls = Some (r', k', s', calls')
   \<Longrightarrow> \<exists>more. calls' = calls @ more
        \<and> (\<forall>p c. Call_HandleCommand p c \<in> set more \<longrightarrow> cmd_type c \<noteq> Wraparound)
        \<and> (\<forall>p c. Call_func p c \<in> set more \<longrightarrow> cmd_type c = AsyncCall)"
proof (induction fuel arbitrary: k read_ptr write_ptr s calls)
  case 0
  then show ?case by (auto simp: RunGPULoop_drain.simps split: if_splits)
next
  case (Suc fuel)
  show ?case
  proof (cases "read_ptr < write_ptr")
    case False
    with Suc.prems show ?thesis by (auto simp: RunGPULoop_drain.simps)
  next
    case True
    let ?cmd = "m_command_fifo_data s read_ptr"
    show ?thesis
    proof (cases "cmd_type ?cmd")
      case Wraparound
      with True Suc.prems
      have "RunGPULoop_drain fuel writes (Suc k) 0 (writes k)
              (s\<lparr>m_command_fifo_write_ptr := writes k, m_command_fifo_read_ptr := 0\<rparr>) calls
            = Some (r', k', s', calls')"
        by (simp add: RunGPULoop_drain.simps Let_def)
      then show ?thesis by (rule Suc.IH)
    next
      case AsyncCall
      with True Suc.prems
      have "RunGPULoop_drain fuel writes k (read_ptr + cmd_size ?cmd) write_ptr s
              (calls @ [Call_func read_ptr ?cmd]) = Some (r', k', s', calls')"
        by (simp add: RunGPULoop_drain.simps Let_def)
      from Suc.IH [OF this] AsyncCall show ?thesis by auto
    next
      case ChangeBackend
      with True Suc.prems
      have "RunGPULoop_drain fuel writes k (read_ptr + cmd_size ?cmd) write_ptr s
              (calls @ [Call_ChangeGPUBackendOnThread]) = Some (r', k', s', calls')"
        by (simp add: RunGPULoop_drain.simps Let_def)
      from Suc.IH [OF this] show ?thesis by auto
    next
      case UpdateVSync
      with True Suc.prems
      have "RunGPULoop_drain fuel writes k (read_ptr + cmd_size ?cmd) write_ptr s
              (calls @ [Call_UpdateVSyncOnThread]) = Some (r', k', s', calls')"
        by (simp add: RunGPULoop_drain.simps Let_def)
      from Suc.IH [OF this] show ?thesis by auto
    next
      case (BackendCommand t)
      with True Suc.prems
      have "RunGPULoop_drain fuel writes k (read_ptr + cmd_size ?cmd) write_ptr s
              (calls @ [Call_HandleCommand read_ptr ?cmd]) = Some (r', k', s', calls')"
        by (simp add: RunGPULoop_drain.simps Let_def)
      from Suc.IH [OF this] BackendCommand show ?thesis by auto
    qed
  qed
qed


text \<open>
  From the CPU thread's side: commands that are published while the GPU thread makes no
  store, none of them needing a wrap, lie in the array in the order of their
  publication; a pass of the GPU thread that starts on an empty FIFO makes the calls for
  them in that order.
\<close>

lemma publish_command_fits:
  assumes rw: "m_command_fifo_read_ptr s \<le> m_command_fifo_write_ptr s"
    and fit: "unat (m_command_fifo_write_ptr s) + unat (AlignUpPow2 sz 4) + sizeof_GPUBackendCommand P
              \<le> unat COMMAND_QUEUE_SIZE"
  shows "m_command_fifo_data (snd (publish_command P command sz bytes s))
           = (m_command_fifo_data s)
               (m_command_fifo_write_ptr s :=
                  (m_command_fifo_data s (m_command_fifo_write_ptr s))
                    \<lparr>cmd_type := command, cmd_size := AlignUpPow2 sz 4, cmd_payload := bytes\<rparr>)"
    and "m_command_fifo_write_ptr (snd (publish_command P command sz bytes s))
           = m_command_fifo_write_ptr s + AlignUpPow2 sz 4"
    and "m_command_fifo_read_ptr (snd (publish_command P command sz bytes s))
           = m_command_fifo_read_ptr s"
    and "fst (publish_command P command sz bytes s) = Some (m_command_fifo_write_ptr s)"
proof -
  let ?wp = "m_command_fifo_write_ptr s"
  have wC: "?wp \<le> COMMAND_QUEUE_SIZE"
    using fit by (simp add: word_le_nat_alt)
  have un: "unat (COMMAND_QUEUE_SIZE - ?wp) = unat COMMAND_QUEUE_SIZE - unat ?wp"
    using wC by (simp add: unat_sub)
  have nofull: "\<not> unat (COMMAND_QUEUE_SIZE - ?wp) < unat (AlignUpPow2 sz 4) + sizeof_GPUBackendCommand P"
    using fit un by simp
  have norw: "\<not> ?wp < m_command_fifo_read_ptr s" using rw by simp
  have a: "AllocateCommand P (Suc (Suc 0)) (stays_at (m_command_fifo_read_ptr s)) command sz s
           = (Some ?wp, store_command_header ?wp command (AlignUpPow2 sz 4) s)"
    using nofull norw by (simp add: AllocateCommand_def Let_def stays_at_def)
  show "m_command_fifo_data (snd (publish_command P command sz bytes s))
           = (m_command_fifo_data s)
               (?wp := (m_command_fifo_data s ?wp)
                    \<lparr>cmd_type := command, cmd_size := AlignUpPow2 sz 4, cmd_payload := bytes\<rparr>)"
    by (simp add: publish_command_def a PushCommand_def Let_def fetch_add_write_ptr_def
          store_command_payload_def store_command_header_def)
  show "m_command_fifo_write_ptr (snd (publish_command P command sz bytes s))
           = ?wp + AlignUpPow2 sz 4"
    by (simp add: publish_command_def a PushCommand_def Let_def fetch_add_write_ptr_def
          store_command_payload_def store_command_header_def)
  show "m_command_fifo_read_ptr (snd (publish_command P command sz bytes s))
           = m_command_fifo_read_ptr s"
    by (simp add: publish_command_def a PushCommand_def Let_def fetch_add_write_ptr_def
          store_command_payload_def store_command_header_def)
  show "fst (publish_command P command sz bytes s) = Some ?wp"
    by (simp add: publish_command_def a)
qed


lemma published_cells_cong:
  assumes "requests_fit P p rs" and "\<forall>a. p \<le> unat a \<longrightarrow> mem a = mem' a"
  shows "published_cells mem p rs = published_cells mem' p rs"
  using assms
proof (induction rs arbitrary: p)
  case Nil
  then show ?case by simp
next
  case (Cons r rs)
  obtain command sz bytes where r: "r = (command, sz, bytes)" by (cases r)
  let ?n = "unat (AlignUpPow2 sz 4)"
  from Cons.prems(1) r have fit: "p + ?n + sizeof_GPUBackendCommand P \<le> unat COMMAND_QUEUE_SIZE"
    and rest: "requests_fit P (p + ?n) rs"
    by simp_all
  have "p < 2 ^ 32" using fit by (simp add: unat_COMMAND_QUEUE_SIZE)
  then have "unat (word_of_nat p :: u32) = p" by (simp add: unat_of_nat)
  then have h: "mem (word_of_nat p) = mem' (word_of_nat p)" using Cons.prems(2) by simp
  have "\<forall>a. p + ?n \<le> unat a \<longrightarrow> mem a = mem' a" using Cons.prems(2) by simp
  with rest have "published_cells mem (p + ?n) rs = published_cells mem' (p + ?n) rs"
    by (rule Cons.IH)
  then show ?case using h r by simp
qed

lemma length_published_cells [simp]: "length (published_cells mem p rs) = length rs"
  by (induction rs arbitrary: p) auto

lemma publish_commands_layout:
  assumes "m_command_fifo_read_ptr s \<le> m_command_fifo_write_ptr s"
    and "requests_fit P (unat (m_command_fifo_write_ptr s)) rs"
  shows "slots_at (m_command_fifo_data (publish_commands P rs s))
           (unat (m_command_fifo_write_ptr s))
           (published_cells (m_command_fifo_data s) (unat (m_command_fifo_write_ptr s)) rs)
           (unat (m_command_fifo_write_ptr (publish_commands P rs s)))
         \<and> m_command_fifo_read_ptr (publish_commands P rs s) = m_command_fifo_read_ptr s
         \<and> (\<forall>a. unat a < unat (m_command_fifo_write_ptr s)
               \<longrightarrow> m_command_fifo_data (publish_commands P rs s) a = m_command_fifo_data s a)"
  using assms
proof (induction rs arbitrary: s)
  case Nil
  then show ?case by simp
next
  case (Cons r rs)
  obtain command sz bytes where r: "r = (command, sz, bytes)" by (cases r)
  let ?wp = "m_command_fifo_write_ptr s"
  let ?w = "unat ?wp"
  let ?n = "unat (AlignUpPow2 sz 4)"
  let ?cell = "(m_command_fifo_data s ?wp)
                 \<lparr>cmd_type := command, cmd_size := AlignUpPow2 sz 4, cmd_payload := bytes\<rparr>"
  let ?s1 = "snd (publish_command P command sz bytes s)"
  let ?fin = "publish_commands P rs ?s1"
  from Cons.prems(2) r have ty: "command \<noteq> Wraparound" and pos: "0 < ?n"
    and fit: "?w + ?n + sizeof_GPUBackendCommand P \<le> unat COMMAND_QUEUE_SIZE"
    and rest: "requests_fit P (?w + ?n) rs"
    by simp_all
  note pc = publish_command_fits [OF Cons.prems(1) fit, of command bytes]
  have "?w + ?n < 2 ^ 32" using fit by (simp add: unat_COMMAND_QUEUE_SIZE)
  then have w1: "unat (m_command_fifo_write_ptr ?s1) = ?w + ?n"
    unfolding pc(2) by (simp add: unat_add_lem [THEN iffD1])
  have "?wp \<le> m_command_fifo_write_ptr ?s1"
    using w1 by (simp add: word_le_nat_alt)
  then have rw1: "m_command_fifo_read_ptr ?s1 \<le> m_command_fifo_write_ptr ?s1"
    using Cons.prems(1) pc(3) by simp
  have rest1: "requests_fit P (unat (m_command_fifo_write_ptr ?s1)) rs"
    using rest w1 by simp
  from Cons.IH [OF rw1 rest1]
  have ih1: "slots_at (m_command_fifo_data ?fin) (?w + ?n)
               (published_cells (m_command_fifo_data ?s1) (?w + ?n) rs)
               (unat (m_command_fifo_write_ptr ?fin))"
    and ih2: "m_command_fifo_read_ptr ?fin = m_command_fifo_read_ptr ?s1"
    and ih3: "\<forall>a. unat a < ?w + ?n
                \<longrightarrow> m_command_fifo_data ?fin a = m_command_fifo_data ?s1 a"
    unfolding w1 by simp_all
  have above: "\<forall>a. ?w + ?n \<le> unat a \<longrightarrow> m_command_fifo_data ?s1 a = m_command_fifo_data s a"
  proof (intro allI impI)
    fix a :: u32
    assume "?w + ?n \<le> unat a"
    then have "a \<noteq> ?wp" using pos by auto
    then show "m_command_fifo_data ?s1 a = m_command_fifo_data s a"
      unfolding pc(1) by simp
  qed
  have cells: "published_cells (m_command_fifo_data ?s1) (?w + ?n) rs
               = published_cells (m_command_fifo_data s) (?w + ?n) rs"
    using rest above by (rule published_cells_cong)
  have head: "m_command_fifo_data ?fin ?wp = ?cell"
  proof -
    have "m_command_fifo_data ?fin ?wp = m_command_fifo_data ?s1 ?wp"
      using ih3 pos by simp
    then show ?thesis unfolding pc(1) by simp
  qed
  have below: "\<forall>a. unat a < ?w \<longrightarrow> m_command_fifo_data ?fin a = m_command_fifo_data s a"
  proof (intro allI impI)
    fix a :: u32
    assume lt: "unat a < ?w"
    then have "a \<noteq> ?wp" by auto
    then have "m_command_fifo_data ?s1 a = m_command_fifo_data s a"
      unfolding pc(1) by simp
    moreover have "m_command_fifo_data ?fin a = m_command_fifo_data ?s1 a"
      using ih3 lt by simp
    ultimately show "m_command_fifo_data ?fin a = m_command_fifo_data s a" by simp
  qed
  show ?case
    using head ty pos ih1 ih2 pc(3) below cells r by simp
qed

lemma published_commands_dispatched_in_order:
  assumes "m_command_fifo_read_ptr s = m_command_fifo_write_ptr s"
    and "requests_fit P (unat (m_command_fifo_write_ptr s)) rs"
    and "rs \<noteq> []"
  shows "pass_calls (Suc (length rs)) (publish_commands P rs s)
         = Some (Pass_drained,
                 calls_for (unat (m_command_fifo_write_ptr s))
                   (published_cells (m_command_fifo_data s)
                      (unat (m_command_fifo_write_ptr s)) rs))"
proof -
  let ?fin = "publish_commands P rs s"
  let ?w = "unat (m_command_fifo_write_ptr s)"
  let ?cs = "published_cells (m_command_fifo_data s) ?w rs"
  have rw: "m_command_fifo_read_ptr s \<le> m_command_fifo_write_ptr s" using assms(1) by simp
  from publish_commands_layout [OF rw assms(2)]
  have lay: "slots_at (m_command_fifo_data ?fin) ?w ?cs (unat (m_command_fifo_write_ptr ?fin))"
    and rd: "m_command_fifo_read_ptr ?fin = m_command_fifo_read_ptr s"
    by simp_all
  obtain c cs' where cs: "?cs = c # cs'"
    using assms(3) by (cases ?cs) (auto dest: arg_cong [of _ _ length])
  then have "?w + unat (cmd_size c) \<le> unat (m_command_fifo_write_ptr ?fin)"
    and "0 < unat (cmd_size c)"
    using lay slots_at_le [of "m_command_fifo_data ?fin" "?w + unat (cmd_size c)" cs'
            "unat (m_command_fifo_write_ptr ?fin)"]
    by simp_all
  then have lt: "?w < unat (m_command_fifo_write_ptr ?fin)" by simp
  then have ne: "m_command_fifo_read_ptr ?fin \<noteq> m_command_fifo_write_ptr ?fin"
    and nlt: "\<not> m_command_fifo_write_ptr ?fin < m_command_fifo_read_ptr ?fin"
    using rd assms(1) by (auto simp: word_less_nat_alt)
  have rp: "m_command_fifo_read_ptr ?fin = word_of_nat ?w"
    using rd assms(1) by simp
  have "RunGPULoop_drain (length ?cs + Suc 0) (stays_at (m_command_fifo_write_ptr ?fin)) 1
          (word_of_nat ?w) (m_command_fifo_write_ptr ?fin) ?fin []
        = RunGPULoop_drain (Suc 0) (stays_at (m_command_fifo_write_ptr ?fin)) 1
            (word_of_nat (unat (m_command_fifo_write_ptr ?fin))) (m_command_fifo_write_ptr ?fin) ?fin
            ([] @ calls_for ?w ?cs)"
    using lay by (intro drain_slots) simp_all
  also have "\<dots> = Some (m_command_fifo_write_ptr ?fin, 1, ?fin, calls_for ?w ?cs)"
    by (simp add: drain_done)
  finally have d: "RunGPULoop_drain (Suc (length rs)) (stays_at (m_command_fifo_write_ptr ?fin)) 1
          (m_command_fifo_read_ptr ?fin) (m_command_fifo_write_ptr ?fin) ?fin []
        = Some (m_command_fifo_write_ptr ?fin, 1, ?fin, calls_for ?w ?cs)"
    unfolding rp by simp
  show ?thesis
    using ne nlt d by (simp add: pass_calls_def RunGPULoop_pass_def Let_def stays_at_def)
qed

text \<open>
  The inner loop on an array that still holds the commands as they were laid out.
  Whatever lies in the FIFO array, the loop never calls \<^verbatim>\<open>HandleCommand\<close> with a
  \<^verbatim>\<open>Wraparound\<close>. When the array holds the commands \<open>cs\<close> from the read cursor up to the
  write pointer of the batch, the loop makes the calls for \<open>cs\<close>, in the order of their
  offsets, each with the command as it lies in the array. When it holds the commands
  \<open>cs1\<close> from the read cursor up to a \<^verbatim>\<open>Wraparound\<close> header, and the commands \<open>cs2\<close> from
  offset 0 up to the write pointer the GPU thread loads at the \<^verbatim>\<open>Wraparound\<close>, the loop
  returns with: the write pointer loaded once more; the read pointer 0 stored at the
  \<^verbatim>\<open>Wraparound\<close>, for which no call is made; and the calls for \<open>cs1\<close> and then for \<open>cs2\<close>.
  In both cases the loop is given rounds enough for the commands. That the array holds
  the commands the CPU thread published is a premise here: it is proved above of
  publications that need no wrap, and does not hold of every publication that wraps.
\<close>

lemma RunGPULoop_drain_on_slots:
  "(\<forall>r' k' s' calls' a c.
      RunGPULoop_drain n writes k read_ptr write_ptr s calls = Some (r', k', s', calls')
      \<longrightarrow> Call_HandleCommand a c \<in> set calls'
      \<longrightarrow> Call_HandleCommand a c \<in> set calls \<or> cmd_type c \<noteq> Wraparound)
   \<and> (slots_at (m_command_fifo_data s) p cs (unat write_ptr)
       \<longrightarrow> RunGPULoop_drain (length cs + fuel) writes k (word_of_nat p) write_ptr s calls
           = Some (write_ptr, k, s, calls @ calls_for p cs))
   \<and> (slots_at (m_command_fifo_data s) p cs1 w
        \<and> cmd_type (m_command_fifo_data s (word_of_nat w)) = Wraparound
        \<and> w < unat COMMAND_QUEUE_SIZE
        \<and> slots_at (m_command_fifo_data s) 0 cs2 (unat (writes k))
       \<longrightarrow> RunGPULoop_drain (length cs1 + Suc (length cs2 + fuel)) writes k
             (word_of_nat p) COMMAND_QUEUE_SIZE s calls
           = Some (writes k, Suc k,
                   s\<lparr>m_command_fifo_write_ptr := writes k, m_command_fifo_read_ptr := 0\<rparr>,
                   calls @ calls_for p cs1 @ calls_for 0 cs2))"
proof (intro conjI allI impI)
  fix r' k' s' calls' a c
  assume "RunGPULoop_drain n writes k read_ptr write_ptr s calls = Some (r', k', s', calls')"
    and "Call_HandleCommand a c \<in> set calls'"
  then show "Call_HandleCommand a c \<in> set calls \<or> cmd_type c \<noteq> Wraparound"
    using drain_calls_grow [of n writes k read_ptr write_ptr s calls r' k' s' calls'] by auto
next
  assume seg: "slots_at (m_command_fifo_data s) p cs (unat write_ptr)"
  have "RunGPULoop_drain (length cs + fuel) writes k (word_of_nat p) write_ptr s calls
        = RunGPULoop_drain fuel writes k (word_of_nat (unat write_ptr)) write_ptr s
            (calls @ calls_for p cs)"
    using seg by (intro drain_slots) simp_all
  also have "\<dots> = Some (write_ptr, k, s, calls @ calls_for p cs)"
    by (simp add: drain_done)
  finally show "RunGPULoop_drain (length cs + fuel) writes k (word_of_nat p) write_ptr s calls
                = Some (write_ptr, k, s, calls @ calls_for p cs)" .
next
  assume h: "slots_at (m_command_fifo_data s) p cs1 w
        \<and> cmd_type (m_command_fifo_data s (word_of_nat w)) = Wraparound
        \<and> w < unat COMMAND_QUEUE_SIZE
        \<and> slots_at (m_command_fifo_data s) 0 cs2 (unat (writes k))"
  then have seg1: "slots_at (m_command_fifo_data s) p cs1 w"
    and wrap: "cmd_type (m_command_fifo_data s (word_of_nat w)) = Wraparound"
    and wC: "w < unat COMMAND_QUEUE_SIZE"
    and seg2: "slots_at (m_command_fifo_data s) 0 cs2 (unat (writes k))"
    by simp_all
  let ?s' = "s\<lparr>m_command_fifo_write_ptr := writes k, m_command_fifo_read_ptr := 0\<rparr>"
  have wlt: "(word_of_nat w :: u32) < COMMAND_QUEUE_SIZE"
    using wC by (simp add: word_less_nat_alt unat_of_nat unat_COMMAND_QUEUE_SIZE)
  have seg2': "slots_at (m_command_fifo_data ?s') 0 cs2 (unat (writes k))"
    using seg2 by simp
  have "RunGPULoop_drain (length cs1 + Suc (length cs2 + fuel)) writes k
           (word_of_nat p) COMMAND_QUEUE_SIZE s calls
        = RunGPULoop_drain (Suc (length cs2 + fuel)) writes k (word_of_nat w) COMMAND_QUEUE_SIZE s
            (calls @ calls_for p cs1)"
    using seg1 wC by (intro drain_slots) simp_all
  also have "\<dots> = RunGPULoop_drain (length cs2 + fuel) writes (Suc k) 0 (writes k) ?s'
                      (calls @ calls_for p cs1)"
    using wlt wrap by (rule drain_wraparound_step)
  also have "\<dots> = RunGPULoop_drain fuel writes (Suc k) (word_of_nat (unat (writes k))) (writes k) ?s'
                      ((calls @ calls_for p cs1) @ calls_for 0 cs2)"
    using drain_slots [OF seg2', of "writes k" fuel writes "Suc k" "calls @ calls_for p cs1"]
    by simp
  also have "\<dots> = Some (writes k, Suc k, ?s', (calls @ calls_for p cs1) @ calls_for 0 cs2)"
    by (simp add: drain_done)
  finally show "RunGPULoop_drain (length cs1 + Suc (length cs2 + fuel)) writes k
             (word_of_nat p) COMMAND_QUEUE_SIZE s calls
           = Some (writes k, Suc k, ?s', calls @ calls_for p cs1 @ calls_for 0 cs2)"
    by simp
qed

text \<open>The same on the run that wraps with the GPU thread keeping up.\<close>

lemma RunGPULoop_drain_on_wrapped_run:
  "slots_at (m_command_fifo_data wrapped_run) 0
        [\<lparr>cmd_type = BackendCommand 3, cmd_size = 0x100000, cmd_params_bits = 0, cmd_payload = [3]\<rparr>]
        (unat (0x100000 :: u32))
   \<and> RunGPULoop_drain (Suc 0) (stays_at (m_command_fifo_write_ptr wrapped_run)) 1
        0 0x100000 wrapped_run []
       = Some (0x100000, 1, wrapped_run,
           [Call_HandleCommand 0
              \<lparr>cmd_type = BackendCommand 3, cmd_size = 0x100000, cmd_params_bits = 0, cmd_payload = [3]\<rparr>])
   \<and> slots_at (m_command_fifo_data wrapped_run) 0x200000
     [\<lparr>cmd_type = AsyncCall, cmd_size = 0x100000, cmd_params_bits = 0, cmd_payload = [2]\<rparr>]
     0x300000
   \<and> cmd_type (m_command_fifo_data wrapped_run (word_of_nat 0x300000)) = Wraparound
   \<and> (0x300000 :: nat) < unat COMMAND_QUEUE_SIZE
   \<and> slots_at (m_command_fifo_data wrapped_run) 0
        [\<lparr>cmd_type = BackendCommand 3, cmd_size = 0x100000, cmd_params_bits = 0, cmd_payload = [3]\<rparr>]
        (unat (m_command_fifo_write_ptr wrapped_run))
   \<and> RunGPULoop_drain (Suc (Suc (Suc 0))) (stays_at (m_command_fifo_write_ptr wrapped_run)) 1
        0x200000 COMMAND_QUEUE_SIZE wrapped_run []
       = Some (0x100000, 2, wrapped_run\<lparr>m_command_fifo_read_ptr := 0\<rparr>,
           [Call_func 0x200000
              \<lparr>cmd_type = AsyncCall, cmd_size = 0x100000, cmd_params_bits = 0, cmd_payload = [2]\<rparr>,
            Call_HandleCommand 0
              \<lparr>cmd_type = BackendCommand 3, cmd_size = 0x100000, cmd_params_bits = 0, cmd_payload = [3]\<rparr>])"
proof -
  let ?B = "\<lparr>cmd_type = AsyncCall, cmd_size = 0x100000, cmd_params_bits = 0, cmd_payload = [2]\<rparr>"
  let ?D = "\<lparr>cmd_type = BackendCommand 3, cmd_size = 0x100000, cmd_params_bits = 0, cmd_payload = [3]\<rparr>"
  let ?writes = "stays_at (m_command_fifo_write_ptr wrapped_run)"
  have mem: "m_command_fifo_data wrapped_run
             = unwritten_memory (0x200000 := ?B,
                 0x300000 := \<lparr>cmd_type = Wraparound, cmd_size = 0x100000, cmd_params_bits = 0,
                                cmd_payload = []\<rparr>,
                 0 := ?D)"
    and wp: "m_command_fifo_write_ptr wrapped_run = 0x100000"
    unfolding wrapped_run_def by (simp_all add: producer_run_simps consumer_run_simps)
  have a: "slots_at (m_command_fifo_data wrapped_run) 0x200000 [?B] 0x300000"
    by (simp add: mem)
  have b: "cmd_type (m_command_fifo_data wrapped_run (word_of_nat 0x300000)) = Wraparound"
    by (simp add: mem)
  have c: "(0x300000 :: nat) < unat COMMAND_QUEUE_SIZE"
    by (simp add: COMMAND_QUEUE_SIZE_def)
  have d: "slots_at (m_command_fifo_data wrapped_run) 0 [?D] (unat (?writes 1))"
    by (simp add: mem wp stays_at_def)
  have d': "slots_at (m_command_fifo_data wrapped_run) 0 [?D] (unat (0x100000 :: u32))"
    by (simp add: mem)
  have e: "wrapped_run\<lparr>m_command_fifo_write_ptr := 0x100000, m_command_fifo_read_ptr := 0\<rparr>
           = wrapped_run\<lparr>m_command_fifo_read_ptr := 0\<rparr>"
    by (subst wp [symmetric]) simp
  have first: "RunGPULoop_drain (length [?D] + 0) ?writes 1 (word_of_nat 0) 0x100000 wrapped_run []
               = Some (0x100000, 1, wrapped_run, [] @ calls_for 0 [?D])"
    using d' RunGPULoop_drain_on_slots
            [where s = wrapped_run and p = 0 and cs = "[?D]" and write_ptr = "0x100000"
               and fuel = 0 and writes = ?writes and k = 1 and calls = "[]"]
    by blast
  have second: "RunGPULoop_drain (length [?B] + Suc (length [?D] + 0)) ?writes 1
                  (word_of_nat 0x200000) COMMAND_QUEUE_SIZE wrapped_run []
                = Some (?writes 1, Suc 1,
                    wrapped_run\<lparr>m_command_fifo_write_ptr := ?writes 1, m_command_fifo_read_ptr := 0\<rparr>,
                    [] @ calls_for 0x200000 [?B] @ calls_for 0 [?D])"
    using a b c d RunGPULoop_drain_on_slots
            [where s = wrapped_run and p = "0x200000" and ?cs1.0 = "[?B]" and w = "0x300000"
               and ?cs2.0 = "[?D]" and fuel = 0 and writes = ?writes and k = 1 and calls = "[]"]
    by blast
  show ?thesis
    using a b c d d' e first second by (simp add: wp call_of_def stays_at_def)
qed

subsection \<open>Published commands the GPU thread never dispatches\<close>

text \<open>
  C3, where the code leaves it. On a started GPU thread with a backend, three backend
  commands of 1 MiB are published before the thread has made a pass: the pointers are 0
  and 3 MiB, and a pass now would hand the three to \<^verbatim>\<open>HandleCommand\<close> in the order of
  publication, with their payloads. A fourth command of 1 MiB is published first:
  \<^verbatim>\<open>AllocateCommand\<close> wraps although nothing has been read, returns offset 0, and
  \<^verbatim>\<open>PushCommand\<close> stores the write pointer 1 MiB; each of the four publications has
  woken the thread. The pass of the GPU thread then is the batch from 0 to 1 MiB: its
  only call is \<^verbatim>\<open>HandleCommand\<close> with the fourth command, and it stores the read pointer
  1 MiB. On the next passes the thread finds the read pointer equal to the write
  pointer, makes no call and goes to sleep. The first three published commands are in
  no batch and are never dispatched, and the command the backend receives first is the
  one published last.
\<close>

theorem published_commands_never_dispatched:
  "IsStarted three_pending
   \<and> s_gpu_backend three_pending = Some \<lparr>is_hardware_backend = False, backend_initialized = True\<rparr>
   \<and> m_command_fifo_read_ptr three_pending = 0
   \<and> m_command_fifo_write_ptr three_pending = 0x300000
   \<and> pass_calls (Suc (Suc (Suc 0))) three_pending
       = Some (Pass_drained,
           [Call_HandleCommand 0
              \<lparr>cmd_type = BackendCommand 1, cmd_size = 0x100000, cmd_params_bits = 0,
                 cmd_payload = [1]\<rparr>,
            Call_HandleCommand 0x100000
              \<lparr>cmd_type = BackendCommand 2, cmd_size = 0x100000, cmd_params_bits = 0,
                 cmd_payload = [2]\<rparr>,
            Call_HandleCommand 0x200000
              \<lparr>cmd_type = BackendCommand 3, cmd_size = 0x100000, cmd_params_bits = 0,
                 cmd_payload = [3]\<rparr>])
   \<and> fst fourth_published = Some 0
   \<and> m_command_fifo_read_ptr (snd fourth_published) = 0
   \<and> m_command_fifo_write_ptr (snd fourth_published) = 0x100000
   \<and> s_thread_wake_count (snd fourth_published) = 8
   \<and> pass_calls (Suc (Suc 0)) (snd fourth_published)
       = Some (Pass_drained,
           [Call_HandleCommand 0
              \<lparr>cmd_type = BackendCommand 4, cmd_size = 0x100000, cmd_params_bits = 0,
                 cmd_payload = [4]\<rparr>])
   \<and> m_command_fifo_read_ptr (pass_state (Suc (Suc 0)) (snd fourth_published)) = 0x100000
   \<and> m_command_fifo_write_ptr (pass_state (Suc (Suc 0)) (snd fourth_published)) = 0x100000
   \<and> pass_calls (Suc 0) (pass_state (Suc (Suc 0)) (snd fourth_published))
       = Some (Pass_idle Returned_true, [])
   \<and> pass_calls (Suc 0) (pass_state (Suc 0) (pass_state (Suc (Suc 0)) (snd fourth_published)))
       = Some (Pass_idle Blocked_in_Wait, [])"
  unfolding three_pending_def fourth_published_def running_state_def
  by (simp add: producer_run_simps consumer_run_simps IsStarted_def)

subsection \<open>SyncGPUThread\<close>

lemma spin_never_falls_through:
  "SyncGPUThread_spin P fuel counts k 0 \<noteq> Some (False, j)"
  by (induction fuel arbitrary: k) auto

lemma count_of_two: "\<not> sint (GetThreadWakeCount 2) < 0"
  by (simp add: GetThreadWakeCount_def THREAD_WAKE_COUNT_CPU_THREAD_IS_WAITING_def)

lemma spin_on_busy: "SyncGPUThread_spin P fuel (stays_at 2) k 0 = None"
  by (induction fuel arbitrary: k) (simp_all add: count_of_two stays_at_def)

text \<open>
  What the compare-exchange path does, which is all of \<^verbatim>\<open>SyncGPUThread(false)\<close>: it
  returns at once when the count it loads is negative, and otherwise, the exchange
  succeeding, sets the waiting flag and waits for the done semaphore.
\<close>

lemma SyncGPUThread_cas_sleeping:
  "sint (GetThreadWakeCount (counts 0)) < 0
   \<Longrightarrow> SyncGPUThread P (Suc fuel) counts False s
       = Some (Sync_returned, s\<lparr>s_thread_wake_count := counts 0\<rparr>)"
  by (simp add: SyncGPUThread_def Let_def)

lemma SyncGPUThread_cas_busy:
  "\<not> sint (GetThreadWakeCount (counts 0)) < 0 \<Longrightarrow> counts (Suc 0) = counts 0
   \<Longrightarrow> SyncGPUThread P (Suc fuel) counts False s
       = Some (Sync_waits_for_done,
               s\<lparr>s_thread_wake_count := counts 0 OR THREAD_WAKE_COUNT_CPU_THREAD_IS_WAITING\<rparr>)"
  by (simp add: SyncGPUThread_def Let_def)

text \<open>
  C5, where the code leaves it: \<^verbatim>\<open>SyncGPUThread(true)\<close> while the GPU thread has work
  (the wake count is seen as 2 at every load). In no number of rounds does the call set
  the waiting flag or reach the done semaphore; \<^verbatim>\<open>SyncGPUThread(false)\<close> on the same
  values does both after one round.
\<close>

theorem SyncGPUThread_spin_never_blocks:
  "SyncGPUThread P fuel (stays_at 2) True s = None
   \<and> SyncGPUThread P (Suc fuel) (stays_at 2) False s
       = Some (Sync_waits_for_done,
               s\<lparr>s_thread_wake_count := 2 OR THREAD_WAKE_COUNT_CPU_THREAD_IS_WAITING\<rparr>)"
  by (simp add: SyncGPUThread_def spin_on_busy count_of_two stays_at_def)

text \<open>
  C6, where the code leaves it: the spin loop compares \<^verbatim>\<open>waited\<close>, which stays 0, with
  \<^verbatim>\<open>SPIN_TIME_NS\<close>. Whatever \<^verbatim>\<open>SPIN_TIME_NS\<close> is and whatever values the loads see,
  the loop never hands over to the compare-exchange path; while the GPU thread has work
  it has not ended after any number of rounds.
\<close>

theorem SyncGPUThread_spin_is_unbounded:
  "SyncGPUThread_spin P fuel counts 0 0 \<noteq> Some (False, j)
   \<and> SyncGPUThread_spin P fuel (stays_at 2) 0 0 = None"
  using spin_never_falls_through [of P fuel counts 0 j] spin_on_busy [of P fuel 0] by simp

subsection \<open>CreateGPUBackendOnThread\<close>

text \<open>
  What holds of the fallback: one OSD message, the requested renderer set to software,
  and a \<^verbatim>\<open>Panic\<close> when \<^verbatim>\<open>CreateSoftwareBackend\<close> returns no backend.
\<close>

lemma CreateGPUBackendOnThread_fallback_null:
  "CreateGPUBackendOnThread
     (env\<lparr>Initialize_returns := (\<lambda>hw. False), CreateSoftwareBackend_returns_backend := False\<rparr>)
     clear_vram
     (s\<lparr>s_gpu_backend := None, s_requested_renderer := Some (Hardware k)\<rparr>)
   = Inl (PanicReached ''Failed to initialize software backend.'')"
  by (simp add: CreateGPUBackendOnThread_def Let_def)

text \<open>
  C7, where the code leaves it: the hardware backend's \<^verbatim>\<open>Initialize\<close> returns false and
  \<^verbatim>\<open>CreateSoftwareBackend\<close> returns a backend, on which \<^verbatim>\<open>Initialize\<close> would fail as
  well. The function returns normally, with one OSD message, and the backend in use is
  the software backend as created: \<^verbatim>\<open>Initialize\<close> has not been called on it.
\<close>

theorem CreateGPUBackendOnThread_fallback_skips_Initialize:
  "CreateGPUBackendOnThread
     (env\<lparr>Initialize_returns := (\<lambda>hw. False), CreateSoftwareBackend_returns_backend := True\<rparr>)
     clear_vram
     (s\<lparr>s_gpu_backend := None, s_requested_renderer := Some (Hardware k)\<rparr>)
   = Inr (s\<lparr>s_gpu_backend := Some \<lparr>is_hardware_backend = False, backend_initialized = False\<rparr>,
            s_requested_renderer := Some Software,
            osd_messages := osd_messages s @ [''GPUBackendCreationFailed'']\<rparr>)"
  by (simp add: CreateGPUBackendOnThread_def Let_def)

subsection \<open>HandleGPUDeviceLost\<close>

lemma CreateGPUBackendOnThread_keeps_reset_time:
  "CreateGPUBackendOnThread env cv s = Inr s'
   \<Longrightarrow> s_last_gpu_reset_time s' = s_last_gpu_reset_time s"
  by (auto simp: CreateGPUBackendOnThread_def Let_def split: if_splits option.splits)

lemma HandleGPUDeviceLost_recovers:
  assumes "s_last_gpu_reset_time s = 0
           \<or> \<not> ConvertValueToSeconds_below P (t - s_last_gpu_reset_time s) MIN_TIME_BETWEEN_RESETS"
  shows "HandleGPUDeviceLost P env t s = recovery_after_loss P env t s"
proof -
  have d: "DestroyDeviceOnThread (DestroyGPUBackendOnThread (s\<lparr>s_last_gpu_reset_time := t\<rparr>))
           = s\<lparr>s_last_gpu_reset_time := t, s_gpu_backend := None, g_gpu_device := None\<rparr>"
    by (simp add: DestroyDeviceOnThread_def DestroyGPUBackendOnThread_def)
  show ?thesis
    using assms
    by (auto simp: HandleGPUDeviceLost_def recovery_after_loss_def Let_def d
          CreateDeviceOnThread_def)
qed

lemma HandleGPUDeviceLost_aborts:
  assumes "s_last_gpu_reset_time s \<noteq> 0"
    and "ConvertValueToSeconds_below P (t - s_last_gpu_reset_time s) MIN_TIME_BETWEEN_RESETS"
  shows "HandleGPUDeviceLost P env t s
         = Inl (PanicReached ''Host GPU lost too many times, device is probably completely wedged.'')"
  using assms by (simp add: HandleGPUDeviceLost_def)

lemma recovery_after_loss_records_time:
  assumes "recovery_after_loss P env t s = Inr s'"
  shows "s_last_gpu_reset_time s' = t"
proof -
  let ?api = "GetRenderAPIForRenderer P
                (case s_requested_renderer s of
                   None \<Rightarrow> g_gpu_settings_gpu_renderer P
                 | Some r \<Rightarrow> r)"
  let ?s3 = "s\<lparr>s_last_gpu_reset_time := t, s_gpu_backend := None,
               g_gpu_device := Some ?api, s_render_api := ?api\<rparr>"
  from assms obtain s4 where c: "CreateGPUBackendOnThread env False ?s3 = Inr s4"
    and s': "s' = s4\<lparr>osd_messages := osd_messages s4 @ [''HostGPUDeviceLost'']\<rparr>"
    by (auto simp: recovery_after_loss_def Let_def split: if_splits sum.splits)
  have "s_last_gpu_reset_time s4 = s_last_gpu_reset_time ?s3"
    using c by (rule CreateGPUBackendOnThread_keeps_reset_time)
  then show ?thesis using s' by simp
qed

lemma HandleGPUDeviceLost_records_time:
  assumes "HandleGPUDeviceLost P env t s = Inr s'"
  shows "s_last_gpu_reset_time s' = t"
proof (cases "s_last_gpu_reset_time s = 0
           \<or> \<not> ConvertValueToSeconds_below P (t - s_last_gpu_reset_time s) MIN_TIME_BETWEEN_RESETS")
  case True
  then have "recovery_after_loss P env t s = Inr s'"
    using assms HandleGPUDeviceLost_recovers by simp
  then show ?thesis by (rule recovery_after_loss_records_time)
next
  case False
  then show ?thesis using assms by (simp add: HandleGPUDeviceLost_def)
qed

text \<open>
  C8, as stated: two device losses within 15 seconds abort. It fails when the timer
  read 0 at the first loss: 0 is what \<^verbatim>\<open>s_last_gpu_reset_time\<close> holds before any loss,
  so a loss one tick (a nanosecond here) later is taken for a first one and recovers.
\<close>

theorem HandleGPUDeviceLost_time_zero_counterexample:
  "HandleGPUDeviceLost example_platform cooperative_env 0
     ((initial_state unwritten_memory)\<lparr>s_requested_renderer := Some Software\<rparr>)
     = Inr (recovered_state 0)
   \<and> ConvertValueToSeconds_below example_platform (1 - 0) MIN_TIME_BETWEEN_RESETS
   \<and> HandleGPUDeviceLost example_platform cooperative_env 1 (recovered_state 0)
     = Inr ((recovered_state 1)\<lparr>osd_messages := [''HostGPUDeviceLost'', ''HostGPUDeviceLost'']\<rparr>)"
  by (simp add: lifecycle_run_simps)

text \<open>
  C8, amended: for two consecutive device losses, the first recovered at a timer value
  \<open>t1\<close> other than 0: if the second comes less than 15 seconds after \<open>t1\<close> the process
  aborts; if at least 15 seconds have passed, or for a loss with no reset recorded
  before it, the backend and the device are destroyed and re-created for the currently
  requested renderer, the process aborting if the device cannot be re-created.
\<close>

theorem HandleGPUDeviceLost_rate_limit:
  assumes "HandleGPUDeviceLost P env1 t1 s = Inr s1" and "t1 \<noteq> 0"
  shows "(ConvertValueToSeconds_below P (t2 - t1) MIN_TIME_BETWEEN_RESETS
          \<longrightarrow> HandleGPUDeviceLost P env2 t2 s1
              = Inl (PanicReached
                  ''Host GPU lost too many times, device is probably completely wedged.''))
       \<and> (\<not> ConvertValueToSeconds_below P (t2 - t1) MIN_TIME_BETWEEN_RESETS
          \<longrightarrow> HandleGPUDeviceLost P env2 t2 s1 = recovery_after_loss P env2 t2 s1)
       \<and> (s_last_gpu_reset_time s0 = 0
          \<longrightarrow> HandleGPUDeviceLost P env2 t2 s0 = recovery_after_loss P env2 t2 s0)"
proof -
  have t: "s_last_gpu_reset_time s1 = t1"
    using assms(1) by (rule HandleGPUDeviceLost_records_time)
  show ?thesis
    using t assms(2) HandleGPUDeviceLost_aborts [of s1 P t2 env2]
      HandleGPUDeviceLost_recovers [of s1 P t2 env2]
      HandleGPUDeviceLost_recovers [of s0 P t2 env2]
    by simp
qed

theorem HandleGPUDeviceLost_rate_limit_witness:
  "HandleGPUDeviceLost example_platform cooperative_env 1000
     ((initial_state unwritten_memory)\<lparr>s_requested_renderer := Some Software\<rparr>)
     = Inr (recovered_state 1000)
   \<and> (1000 :: u64) \<noteq> 0
   \<and> ConvertValueToSeconds_below example_platform (5000001000 - 1000) MIN_TIME_BETWEEN_RESETS
   \<and> HandleGPUDeviceLost example_platform cooperative_env 5000001000 (recovered_state 1000)
     = Inl (PanicReached ''Host GPU lost too many times, device is probably completely wedged.'')
   \<and> \<not> ConvertValueToSeconds_below example_platform (15000001000 - 1000) MIN_TIME_BETWEEN_RESETS
   \<and> HandleGPUDeviceLost example_platform cooperative_env 15000001000 (recovered_state 1000)
     = Inr ((recovered_state 15000001000)
              \<lparr>osd_messages := [''HostGPUDeviceLost'', ''HostGPUDeviceLost'']\<rparr>)"
proof -
  let ?s = "(initial_state unwritten_memory)\<lparr>s_requested_renderer := Some Software\<rparr>"
  have a: "HandleGPUDeviceLost example_platform cooperative_env 1000 ?s
           = Inr (recovered_state 1000)"
    by (simp add: lifecycle_run_simps)
  have b: "(1000 :: u64) \<noteq> 0" by simp
  have c: "ConvertValueToSeconds_below example_platform (5000001000 - 1000)
             MIN_TIME_BETWEEN_RESETS"
    by (simp add: ConvertValueToSeconds_below_def example_platform_def
          MIN_TIME_BETWEEN_RESETS_def)
  have d: "\<not> ConvertValueToSeconds_below example_platform (15000001000 - 1000)
             MIN_TIME_BETWEEN_RESETS"
    by (simp add: ConvertValueToSeconds_below_def example_platform_def
          MIN_TIME_BETWEEN_RESETS_def)
  have e: "recovery_after_loss example_platform cooperative_env 15000001000
             (recovered_state 1000)
           = Inr ((recovered_state 15000001000)
                    \<lparr>osd_messages := [''HostGPUDeviceLost'', ''HostGPUDeviceLost'']\<rparr>)"
    by (simp add: recovery_after_loss_def lifecycle_run_simps)
  show ?thesis
    using a b c d e
      HandleGPUDeviceLost_rate_limit [OF a b, of 5000001000 cooperative_env]
      HandleGPUDeviceLost_rate_limit [OF a b, of 15000001000 cooperative_env]
    by simp
qed

subsection \<open>SetVSync\<close>

text \<open>
  C9, as stated: a call with the values already requested is a no-op. It fails when the
  GPU thread has not been started: the function begins with \<^verbatim>\<open>Assert(IsStarted())\<close>, and
  the call ends the process.
\<close>

theorem SetVSync_not_started_counterexample:
  "SetVSync example_platform 0 (stays_at 0) Disabled False (initial_state unwritten_memory)
     = Some (Inl (AssertFailed ''IsStarted()''))"
  by (simp add: SetVSync_def IsStarted_def initial_state_def)

text \<open>
  C9, amended: for every call of \<^verbatim>\<open>SetVSync(mode, throttle)\<close> made while the GPU thread
  is started, with \<open>mode\<close> the currently requested vsync mode and \<open>throttle\<close> the
  currently requested present-throttle flag, the call is a no-op: it returns with the
  state as it was, so that no command is allocated or published, the wake state is not
  touched and the requested fields are unchanged.
\<close>

theorem SetVSync_same_request_is_noop:
  assumes "IsStarted s"
    and "s_requested_vsync s = mode"
    and "s_requested_allow_present_throttle s = allow_present_throttle"
  shows "SetVSync P fuel reads mode allow_present_throttle s = Some (Inr s)"
  using assms by (simp add: SetVSync_def)

theorem SetVSync_same_request_is_noop_witness:
  "IsStarted ((initial_state unwritten_memory)\<lparr>m_gpu_thread_joinable := True\<rparr>)
   \<and> s_requested_vsync ((initial_state unwritten_memory)\<lparr>m_gpu_thread_joinable := True\<rparr>)
       = Disabled
   \<and> s_requested_allow_present_throttle
        ((initial_state unwritten_memory)\<lparr>m_gpu_thread_joinable := True\<rparr>) = False
   \<and> SetVSync example_platform 0 (stays_at 0) Disabled False
         ((initial_state unwritten_memory)\<lparr>m_gpu_thread_joinable := True\<rparr>)
       = Some (Inr ((initial_state unwritten_memory)\<lparr>m_gpu_thread_joinable := True\<rparr>))"
proof -
  let ?s = "(initial_state unwritten_memory)\<lparr>m_gpu_thread_joinable := True\<rparr>"
  have a: "IsStarted ?s" by (simp add: IsStarted_def)
  have b: "s_requested_vsync ?s = Disabled" by (simp add: initial_state_def)
  have c: "s_requested_allow_present_throttle ?s = False" by (simp add: initial_state_def)
  show ?thesis
    using a b c SetVSync_same_request_is_noop [OF a b c, of example_platform 0 "stays_at 0"]
    by simp
qed

end
